theory Spec2Isabelle
  imports Main "HOL-Library.Word" "HOL-Library.AList"
begin

text \<open>
  The repository holds two copies of one serverless endpoint. \<^verbatim>\<open>src/api/analyze.js\<close>
  dispatches to Gemini, DeepSeek and OpenRouter and returns keyword entries with five
  fields; \<^verbatim>\<open>src/unnamed/part_000\<close> knows Gemini and DeepSeek only, returns entries with
  four fields and does not name an unknown provider in its message. Both are embedded:
  the functions of the second copy carry the suffix \<open>_p0\<close>, and statements that are the
  same in both are written once.
\<close>

section \<open>JavaScript strings\<close>

text \<open>
  A JavaScript string is a sequence of 16-bit code units. \<open>js\<close> embeds an ASCII
  literal of the source.
\<close>

type_synonym code_unit = "16 word"
type_synonym jsstring = "code_unit list"

definition js :: "string \<Rightarrow> jsstring" where
  "js s = map (\<lambda>c. of_nat (of_char c)) s"

text \<open>
  The class \<^verbatim>\<open>\s\<close> of a regular expression and the characters removed by
  \<^verbatim>\<open>String.prototype.trim\<close> are the same set: WhiteSpace and LineTerminator.
\<close>

definition is_space :: "code_unit \<Rightarrow> bool" where
  "is_space c = (c = 0x9 \<or> c = 0xA \<or> c = 0xB \<or> c = 0xC \<or> c = 0xD \<or> c = 0x20 \<or> c = 0xA0
     \<or> c = 0x1680 \<or> (0x2000 \<le> c \<and> c \<le> 0x200A) \<or> c = 0x2028 \<or> c = 0x2029
     \<or> c = 0x202F \<or> c = 0x205F \<or> c = 0x3000 \<or> c = 0xFEFF)"

definition trim :: "jsstring \<Rightarrow> jsstring" where
  "trim s = rev (dropWhile is_space (rev (dropWhile is_space s)))"

text \<open>
  Under the flag \<^verbatim>\<open>i\<close> (without \<^verbatim>\<open>u\<close>) an ASCII letter of the pattern matches
  exactly its two ASCII cases, and the backtick matches only itself; comparing after
  \<open>ascii_lower\<close> says the same.
\<close>

definition ascii_lower :: "code_unit \<Rightarrow> code_unit" where
  "ascii_lower c = (if 0x41 \<le> c \<and> c \<le> 0x5A then c + 0x20 else c)"

text \<open>\<^verbatim>\<open>s.replace(/^```json\s*/i, '')\<close>\<close>

definition replace_json_fence :: "jsstring \<Rightarrow> jsstring" where
  "replace_json_fence s =
     (if map ascii_lower (take 7 s) = js ''```json'' then dropWhile is_space (drop 7 s) else s)"

text \<open>\<^verbatim>\<open>s.replace(/^```\s*/i, '')\<close>\<close>

definition replace_fence :: "jsstring \<Rightarrow> jsstring" where
  "replace_fence s =
     (if take 3 s = js ''```'' then dropWhile is_space (drop 3 s) else s)"

text \<open>
  \<^verbatim>\<open>s.replace(/\s*```$/i, '')\<close>: the leftmost match that reaches the end of the input
  starts at the beginning of the whitespace run in front of the final fence.
\<close>

definition replace_fence_end :: "jsstring \<Rightarrow> jsstring" where
  "replace_fence_end s =
     (if take 3 (rev s) = js ''```'' then rev (dropWhile is_space (drop 3 (rev s))) else s)"

text \<open>
  \<^verbatim>\<open>s.match(/\{[\s\S]*\}/)\<close>, the matched text (\<^verbatim>\<open>jsonMatch[0]\<close>) or \<open>None\<close> for
  \<^verbatim>\<open>null\<close>. The match is tried at the first opening brace; the greedy star runs to
  the end and backs up to the last closing brace behind that opening brace. When there
  is none, no later opening brace has one either.
\<close>

definition json_match :: "jsstring \<Rightarrow> jsstring option" where
  "json_match s =
     (let r = dropWhile (\<lambda>c. c \<noteq> 0x7B) s in
      if r = [] then None
      else let body = rev (dropWhile (\<lambda>c. c \<noteq> 0x7D) (rev (tl r))) in
        if body = [] then None else Some (0x7B # body))"

text \<open>The first two statements of \<^verbatim>\<open>parseAIResponse\<close>.\<close>

definition cleanText :: "jsstring \<Rightarrow> jsstring" where
  "cleanText text = replace_fence_end (replace_fence (replace_json_fence (trim text)))"

section \<open>JavaScript values\<close>

text \<open>
  The values that \<^verbatim>\<open>JSON.parse\<close>, \<^verbatim>\<open>response.json()\<close> and property reads produce.
  A number is kept as its rendering by \<^verbatim>\<open>Number::toString\<close> (both zeros render as
  \<^verbatim>\<open>0\<close>): the code only tests numbers for truthiness, converts them to strings and
  passes them on. An object is the list of its own properties in creation order.
\<close>

datatype jsval =
    JUndefined
  | JNull
  | JBool bool
  | JNum jsstring
  | JStr jsstring
  | JArr "jsval list"
  | JObj "(jsstring \<times> jsval) list"

type_synonym jsobject = "(jsstring \<times> jsval) list"

datatype exn =
    Error jsstring
  | TypeError jsstring
  | SyntaxError jsstring

fun message :: "exn \<Rightarrow> jsstring" where
  "message (Error m) = m"
| "message (TypeError m) = m"
| "message (SyntaxError m) = m"

definition bind_exn :: "exn + 'a \<Rightarrow> ('a \<Rightarrow> exn + 'b) \<Rightarrow> exn + 'b" where
  "bind_exn r f = (case r of Inl e \<Rightarrow> Inl e | Inr v \<Rightarrow> f v)"

fun truthy :: "jsval \<Rightarrow> bool" where
  "truthy JUndefined = False"
| "truthy JNull = False"
| "truthy (JBool b) = b"
| "truthy (JNum r) = (r \<noteq> js ''0'' \<and> r \<noteq> js ''NaN'')"
| "truthy (JStr s) = (s \<noteq> [])"
| "truthy (JArr xs) = True"
| "truthy (JObj ps) = True"

text \<open>\<^verbatim>\<open>a || b\<close>\<close>

definition or_else :: "jsval \<Rightarrow> jsval \<Rightarrow> jsval" where
  "or_else a b = (if truthy a then a else b)"

text \<open>
  The own property \<open>n\<close> of an object, \<^verbatim>\<open>undefined\<close> when it has none. The names the
  code reads (\<^verbatim>\<open>translation\<close>, \<^verbatim>\<open>keywords\<close>, \<^verbatim>\<open>word\<close>, \<^verbatim>\<open>phonetic\<close>, \<^verbatim>\<open>roots\<close>,
  \<^verbatim>\<open>origin\<close>, \<^verbatim>\<open>meaning\<close>, \<^verbatim>\<open>error\<close>, \<^verbatim>\<open>message\<close>, \<^verbatim>\<open>candidates\<close>, \<^verbatim>\<open>content\<close>,
  \<^verbatim>\<open>parts\<close>, \<^verbatim>\<open>text\<close>, \<^verbatim>\<open>choices\<close>, \<^verbatim>\<open>provider\<close>, \<^verbatim>\<open>model\<close>, \<^verbatim>\<open>apiKey\<close>, \<^verbatim>\<open>prompt\<close>)
  are inherited from no built-in prototype, so a read of one of them on a boolean,
  number, string or array gives \<^verbatim>\<open>undefined\<close>.
\<close>

definition own :: "jsobject \<Rightarrow> jsstring \<Rightarrow> jsval" where
  "own ps n = (case map_of ps n of None \<Rightarrow> JUndefined | Some v \<Rightarrow> v)"

definition quoted :: "jsstring \<Rightarrow> jsstring" where
  "quoted n = [0x27] @ n @ [0x27]"

text \<open>\<^verbatim>\<open>v.n\<close>, with the message V8 gives the TypeError.\<close>

fun get_prop :: "jsval \<Rightarrow> jsstring \<Rightarrow> exn + jsval" where
  "get_prop JUndefined n =
     Inl (TypeError (js ''Cannot read properties of undefined (reading '' @ quoted n @ js '')''))"
| "get_prop JNull n =
     Inl (TypeError (js ''Cannot read properties of null (reading '' @ quoted n @ js '')''))"
| "get_prop (JObj ps) n = Inr (own ps n)"
| "get_prop v n = Inr JUndefined"

text \<open>\<^verbatim>\<open>v?.n\<close>\<close>

fun opt_prop :: "jsval \<Rightarrow> jsstring \<Rightarrow> jsval" where
  "opt_prop (JObj ps) n = own ps n"
| "opt_prop v n = JUndefined"

text \<open>\<^verbatim>\<open>v?.[0]\<close>\<close>

fun opt_index0 :: "jsval \<Rightarrow> jsval" where
  "opt_index0 (JArr xs) = (case xs of [] \<Rightarrow> JUndefined | x # _ \<Rightarrow> x)"
| "opt_index0 (JStr s) = (case s of [] \<Rightarrow> JUndefined | c # _ \<Rightarrow> JStr [c])"
| "opt_index0 (JObj ps) = own ps (js ''0'')"
| "opt_index0 v = JUndefined"

text \<open>\<^verbatim>\<open>Array.isArray(v)\<close>\<close>

fun isArray :: "jsval \<Rightarrow> bool" where
  "isArray (JArr xs) = True"
| "isArray v = False"

text \<open>
  \<^verbatim>\<open>o.n = v\<close> on an ordinary object: an existing own property keeps its place, a new
  one is added last.
\<close>

definition set_prop :: "jsobject \<Rightarrow> jsstring \<Rightarrow> jsval \<Rightarrow> jsobject" where
  "set_prop ps n v = AList.update n v ps"

text \<open>
  ToString, as applied by \<^verbatim>\<open>+\<close> with a string operand, by a template literal and by
  \<^verbatim>\<open>new Error(v)\<close>. An array joins its elements with commas, \<^verbatim>\<open>null\<close> and
  \<^verbatim>\<open>undefined\<close> elements giving the empty string. An object without an own property
  \<^verbatim>\<open>toString\<close> inherits the one of \<^verbatim>\<open>Object.prototype\<close>; an own \<^verbatim>\<open>toString\<close> that came
  from JSON is not callable, and then no method returns a primitive.
\<close>

fun to_string :: "jsval \<Rightarrow> exn + jsstring"
  and join_elements :: "jsval list \<Rightarrow> exn + jsstring"
  and element_string :: "jsval \<Rightarrow> exn + jsstring" where
  "to_string JUndefined = Inr (js ''undefined'')"
| "to_string JNull = Inr (js ''null'')"
| "to_string (JBool b) = Inr (if b then js ''true'' else js ''false'')"
| "to_string (JNum r) = Inr r"
| "to_string (JStr s) = Inr s"
| "to_string (JArr xs) = join_elements xs"
| "to_string (JObj ps) =
     (if map_of ps (js ''toString'') = None then Inr (js ''[object Object]'')
      else Inl (TypeError (js ''Cannot convert object to primitive value'')))"
| "join_elements [] = Inr []"
| "join_elements [x] = element_string x"
| "join_elements (x # y # ys) =
     (case element_string x of Inl e \<Rightarrow> Inl e
      | Inr s \<Rightarrow> (case join_elements (y # ys) of Inl e \<Rightarrow> Inl e
                 | Inr t \<Rightarrow> Inr (s @ js '','' @ t)))"
| "element_string JUndefined = Inr []"
| "element_string JNull = Inr []"
| "element_string (JBool b) = to_string (JBool b)"
| "element_string (JNum r) = to_string (JNum r)"
| "element_string (JStr s) = to_string (JStr s)"
| "element_string (JArr xs) = join_elements xs"
| "element_string (JObj ps) = to_string (JObj ps)"

section \<open>The normalizer: parseAIResponse\<close>

text \<open>
  \<^verbatim>\<open>JSON.parse\<close> is a built-in of the runtime and a parameter \<open>parse\<close> here: \<open>Inl m\<close>
  is a SyntaxError with message \<open>m\<close>. Every text the code hands to it begins with an
  opening brace (it is a match of \<^verbatim>\<open>/\{[\s\S]*\}/\<close>), and a JSON text that begins so is
  an object or a syntax error, so a successful parse returns the properties of an
  object.
\<close>

type_synonym json_parser = "jsstring \<Rightarrow> jsstring + jsobject"

text \<open>The callback of \<^verbatim>\<open>map\<close> in \<^verbatim>\<open>src/api/analyze.js\<close>.\<close>

definition keyword_entry :: "jsval \<Rightarrow> exn + jsval" where
  "keyword_entry k =
     bind_exn (get_prop k (js ''word'')) (\<lambda>word.
     bind_exn (get_prop k (js ''phonetic'')) (\<lambda>phonetic.
     bind_exn (get_prop k (js ''roots'')) (\<lambda>roots.
     bind_exn (get_prop k (js ''origin'')) (\<lambda>origin.
     bind_exn (get_prop k (js ''meaning'')) (\<lambda>meaning.
       Inr (JObj [(js ''word'', or_else word (JStr [])),
                  (js ''phonetic'', or_else phonetic (JStr [])),
                  (js ''roots'', or_else roots (JStr [])),
                  (js ''origin'', or_else origin (JStr [])),
                  (js ''meaning'', or_else meaning (JStr []))]))))))"

text \<open>The callback of \<^verbatim>\<open>map\<close> in the second copy of the handler (\<^verbatim>\<open>src/unnamed/part_000\<close>).\<close>

definition keyword_entry_p0 :: "jsval \<Rightarrow> exn + jsval" where
  "keyword_entry_p0 k =
     bind_exn (get_prop k (js ''word'')) (\<lambda>word.
     bind_exn (get_prop k (js ''roots'')) (\<lambda>roots.
     bind_exn (get_prop k (js ''origin'')) (\<lambda>origin.
     bind_exn (get_prop k (js ''meaning'')) (\<lambda>meaning.
       Inr (JObj [(js ''word'', or_else word (JStr [])),
                  (js ''roots'', or_else roots (JStr [])),
                  (js ''origin'', or_else origin (JStr [])),
                  (js ''meaning'', or_else meaning (JStr []))])))))"

text \<open>\<^verbatim>\<open>Array.prototype.map\<close> with a callback that may throw: the first exception ends it.\<close>

fun map_exn :: "('a \<Rightarrow> exn + 'b) \<Rightarrow> 'a list \<Rightarrow> exn + 'b list" where
  "map_exn f [] = Inr []"
| "map_exn f (x # xs) =
     (case f x of Inl e \<Rightarrow> Inl e
      | Inr y \<Rightarrow> (case map_exn f xs of Inl e \<Rightarrow> Inl e | Inr ys \<Rightarrow> Inr (y # ys)))"

text \<open>
  The statements of the \<^verbatim>\<open>try\<close> block after \<^verbatim>\<open>JSON.parse\<close>, on the properties of
  \<^verbatim>\<open>parsed\<close>. After the second statement \<^verbatim>\<open>parsed.keywords\<close> is an array.
\<close>

definition default_translation :: "jsobject \<Rightarrow> jsobject" where
  "default_translation parsed =
     (if \<not> truthy (own parsed (js ''translation''))
      then set_prop parsed (js ''translation'') (JStr []) else parsed)"

definition default_keywords :: "jsobject \<Rightarrow> jsobject" where
  "default_keywords parsed =
     (if \<not> isArray (own parsed (js ''keywords''))
      then set_prop parsed (js ''keywords'') (JArr []) else parsed)"

fun elements :: "jsval \<Rightarrow> jsval list" where
  "elements (JArr xs) = xs"
| "elements v = []"

definition coerce_with :: "(jsval \<Rightarrow> exn + jsval) \<Rightarrow> jsobject \<Rightarrow> exn + jsval" where
  "coerce_with entry parsed0 =
     (let parsed = default_keywords (default_translation parsed0) in
      bind_exn (map_exn entry (elements (own parsed (js ''keywords'')))) (\<lambda>ks.
        Inr (JObj (set_prop parsed (js ''keywords'') (JArr (take 5 ks))))))"

text \<open>
  \<^verbatim>\<open>parseAIResponse(text)\<close>. The adapters call it with any truthy value; on a value
  that is not a string \<^verbatim>\<open>text.trim\<close> is not a function and the call throws. The
  \<^verbatim>\<open>catch\<close> clause turns every exception of the \<^verbatim>\<open>try\<close> block into an \<^verbatim>\<open>Error\<close>.
\<close>

definition try_block :: "(jsval \<Rightarrow> exn + jsval) \<Rightarrow> json_parser \<Rightarrow> jsstring \<Rightarrow> exn + jsval" where
  "try_block entry parse candidate =
     (case (case parse candidate of Inl m \<Rightarrow> Inl (SyntaxError m)
            | Inr parsed \<Rightarrow> coerce_with entry parsed) of
        Inl e \<Rightarrow> Inl (Error (js ''Failed to parse AI response: '' @ message e))
      | Inr r \<Rightarrow> Inr r)"

fun parse_with :: "(jsval \<Rightarrow> exn + jsval) \<Rightarrow> json_parser \<Rightarrow> jsval \<Rightarrow> exn + jsval" where
  "parse_with entry parse (JStr text) =
     (case json_match (cleanText text) of
        None \<Rightarrow> Inl (Error (js ''Could not parse AI response as JSON''))
      | Some candidate \<Rightarrow> try_block entry parse candidate)"
| "parse_with entry parse v =
     bind_exn (get_prop v (js ''trim'')) (\<lambda>trim.
       Inl (TypeError (js ''text.trim is not a function'')))"

text \<open>\<^verbatim>\<open>parseAIResponse\<close> of \<^verbatim>\<open>src/api/analyze.js\<close>.\<close>

definition parseAIResponse :: "json_parser \<Rightarrow> jsval \<Rightarrow> exn + jsval" where
  "parseAIResponse = parse_with keyword_entry"

text \<open>
  \<^verbatim>\<open>parseAIResponse\<close> of \<^verbatim>\<open>src/unnamed/part_000\<close>: the same statements, with the
  four-field callback.
\<close>

definition parseAIResponse_p0 :: "json_parser \<Rightarrow> jsval \<Rightarrow> exn + jsval" where
  "parseAIResponse_p0 = parse_with keyword_entry_p0"

section \<open>The provider adapters\<close>

text \<open>
  The argument of \<^verbatim>\<open>fetch\<close>: \<open>payload\<close> is the value the adapter gives to
  \<^verbatim>\<open>JSON.stringify\<close> for the body. What \<^verbatim>\<open>fetch\<close> resolves to: \<open>json\<close> is the outcome
  of \<^verbatim>\<open>response.json()\<close>, an exception when the body is not JSON.
\<close>

record request =
  url :: jsstring
  http_method :: jsstring
  headers :: "(jsstring \<times> jsstring) list"
  payload :: jsval

record response =
  ok :: bool
  status :: nat
  json :: "exn + jsval"

text \<open>
  The network is a parameter \<open>fetch\<close>: \<open>Inl e\<close> is a rejected promise. An adapter
  returns the outbound calls it made together with its result.
\<close>

type_synonym fetcher = "request \<Rightarrow> exn + response"
type_synonym normalizer = "jsval \<Rightarrow> exn + jsval"

text \<open>The decimal digits of \<^verbatim>\<open>response.status\<close> in a template literal.\<close>

function show_nat :: "nat \<Rightarrow> jsstring" where
  "show_nat n =
     (if n < 10 then [of_nat (48 + n)] else show_nat (n div 10) @ [of_nat (48 + n mod 10)])"
  by pat_completeness auto
termination
  by (relation "measure id") auto

definition system_prompt :: jsstring where
  "system_prompt = js ''You are a helpful assistant that analyzes English text and provides etymology information. Always respond with valid JSON only, no markdown''"

definition chat_payload :: "jsstring \<Rightarrow> jsval \<Rightarrow> jsval \<Rightarrow> jsval" where
  "chat_payload system model prompt =
     JObj [(js ''model'', model),
           (js ''messages'',
              JArr [JObj [(js ''role'', JStr (js ''system'')), (js ''content'', JStr system)],
                    JObj [(js ''role'', JStr (js ''user'')), (js ''content'', prompt)]]),
           (js ''temperature'', JNum (js ''0.3'')),
           (js ''max_tokens'', JNum (js ''2048''))]"

text \<open>\<^verbatim>\<open>throw new Error(v)\<close>\<close>

definition throw_Error :: "jsval \<Rightarrow> exn + 'a" where
  "throw_Error v = bind_exn (to_string v) (\<lambda>m. Inl (Error m))"

text \<open>\<^verbatim>\<open>callGemini\<close>, the statements after \<^verbatim>\<open>fetch\<close> has resolved.\<close>

definition gemini_response :: "normalizer \<Rightarrow> response \<Rightarrow> exn + jsval" where
  "gemini_response parseText response =
     (if \<not> ok response then
        bind_exn (json response) (\<lambda>error.
        bind_exn (get_prop error (js ''error'')) (\<lambda>e.
          throw_Error (or_else (opt_prop e (js ''message'')) (JStr (js ''Gemini API request failed'')))))
      else
        bind_exn (json response) (\<lambda>data.
        bind_exn (get_prop data (js ''candidates'')) (\<lambda>candidates.
          let text = opt_prop (opt_index0 (opt_prop (opt_prop (opt_index0 candidates)
                       (js ''content'')) (js ''parts''))) (js ''text'')
          in if \<not> truthy text then Inl (Error (js ''No response from Gemini''))
             else parseText text)))"

definition callGemini_with ::
  "normalizer \<Rightarrow> fetcher \<Rightarrow> jsval \<Rightarrow> jsval \<Rightarrow> jsval \<Rightarrow> request list \<times> (exn + jsval)" where
  "callGemini_with parseText fetch apiKey model prompt =
     (case to_string model of Inl e \<Rightarrow> ([], Inl e) | Inr m \<Rightarrow>
      case to_string apiKey of Inl e \<Rightarrow> ([], Inl e) | Inr k \<Rightarrow>
        let apiUrl = js ''https://generativelanguage.googleapis.com/v1beta/models/'' @ m
                       @ js '':generateContent?key='' @ k;
            call = \<lparr>url = apiUrl, http_method = js ''POST'',
                    headers = [(js ''Content-Type'', js ''application/json'')],
                    payload = JObj
                      [(js ''contents'', JArr [JObj [(js ''parts'', JArr [JObj [(js ''text'', prompt)]])]]),
                       (js ''generationConfig'',
                          JObj [(js ''temperature'', JNum (js ''0.3'')),
                                (js ''maxOutputTokens'', JNum (js ''2048''))])]\<rparr>
        in ([call], bind_exn (fetch call) (gemini_response parseText)))"

text \<open>\<^verbatim>\<open>callDeepSeek\<close>\<close>

definition deepseek_response :: "normalizer \<Rightarrow> response \<Rightarrow> exn + jsval" where
  "deepseek_response parseText response =
     (if \<not> ok response then
        bind_exn (json response) (\<lambda>error.
        bind_exn (get_prop error (js ''error'')) (\<lambda>e.
          throw_Error (or_else (opt_prop e (js ''message'')) (JStr (js ''DeepSeek API request failed'')))))
      else
        bind_exn (json response) (\<lambda>data.
        bind_exn (get_prop data (js ''choices'')) (\<lambda>choices.
          let text = opt_prop (opt_prop (opt_index0 choices) (js ''message'')) (js ''content'')
          in if \<not> truthy text then Inl (Error (js ''No response from DeepSeek''))
             else parseText text)))"

definition callDeepSeek_with ::
  "normalizer \<Rightarrow> fetcher \<Rightarrow> jsval \<Rightarrow> jsval \<Rightarrow> jsval \<Rightarrow> request list \<times> (exn + jsval)" where
  "callDeepSeek_with parseText fetch apiKey model prompt =
     (case to_string apiKey of Inl e \<Rightarrow> ([], Inl e) | Inr k \<Rightarrow>
        let call = \<lparr>url = js ''https://api.deepseek.com/v1/chat/completions'',
                    http_method = js ''POST'',
                    headers = [(js ''Content-Type'', js ''application/json''),
                               (js ''Authorization'', js ''Bearer '' @ k)],
                    payload = chat_payload (system_prompt @ js ''.'') model prompt\<rparr>
        in ([call], bind_exn (fetch call) (deepseek_response parseText)))"

text \<open>
  \<^verbatim>\<open>callOpenRouter\<close>: here a body that is not JSON is replaced by the empty object
  (\<^verbatim>\<open>.catch(() => ({}))\<close>).
\<close>

definition openrouter_response :: "normalizer \<Rightarrow> response \<Rightarrow> exn + jsval" where
  "openrouter_response parseText response =
     (if \<not> ok response then
        (let errorData = (case json response of Inl e \<Rightarrow> JObj [] | Inr v \<Rightarrow> v) in
         bind_exn (get_prop errorData (js ''error'')) (\<lambda>e.
           throw_Error (or_else (opt_prop e (js ''message''))
                          (JStr (js ''OpenRouter error '' @ show_nat (status response))))))
      else
        bind_exn (json response) (\<lambda>data.
        bind_exn (get_prop data (js ''choices'')) (\<lambda>choices.
          let text = opt_prop (opt_prop (opt_index0 choices) (js ''message'')) (js ''content'')
          in if \<not> truthy text then Inl (Error (js ''No response from OpenRouter''))
             else parseText text)))"

definition callOpenRouter_with ::
  "normalizer \<Rightarrow> fetcher \<Rightarrow> jsval \<Rightarrow> jsval \<Rightarrow> jsval \<Rightarrow> request list \<times> (exn + jsval)" where
  "callOpenRouter_with parseText fetch apiKey model prompt =
     (case to_string apiKey of Inl e \<Rightarrow> ([], Inl e) | Inr k \<Rightarrow>
        let call = \<lparr>url = js ''https://openrouter.ai/api/v1/chat/completions'',
                    http_method = js ''POST'',
                    headers = [(js ''Content-Type'', js ''application/json''),
                               (js ''Authorization'', js ''Bearer '' @ k),
                               (js ''HTTP-Referer'', js ''https://english-collector.vercel.app''),
                               (js ''X-Title'', js ''English Collector'')],
                    payload = chat_payload (system_prompt @ js '' code blocks.'') model prompt\<rparr>
        in ([call], bind_exn (fetch call) (openrouter_response parseText)))"

text \<open>The adapters of \<^verbatim>\<open>src/api/analyze.js\<close> call the normalizer of that file.\<close>

definition callGemini ::
  "json_parser \<Rightarrow> fetcher \<Rightarrow> jsval \<Rightarrow> jsval \<Rightarrow> jsval \<Rightarrow> request list \<times> (exn + jsval)" where
  "callGemini parse = callGemini_with (parseAIResponse parse)"

definition callDeepSeek ::
  "json_parser \<Rightarrow> fetcher \<Rightarrow> jsval \<Rightarrow> jsval \<Rightarrow> jsval \<Rightarrow> request list \<times> (exn + jsval)" where
  "callDeepSeek parse = callDeepSeek_with (parseAIResponse parse)"

definition callOpenRouter ::
  "json_parser \<Rightarrow> fetcher \<Rightarrow> jsval \<Rightarrow> jsval \<Rightarrow> jsval \<Rightarrow> request list \<times> (exn + jsval)" where
  "callOpenRouter parse = callOpenRouter_with (parseAIResponse parse)"

text \<open>
  \<^verbatim>\<open>callGemini\<close> and \<^verbatim>\<open>callDeepSeek\<close> of \<^verbatim>\<open>src/unnamed/part_000\<close> have the same
  statements and call the normalizer of that file.
\<close>

definition callGemini_p0 ::
  "json_parser \<Rightarrow> fetcher \<Rightarrow> jsval \<Rightarrow> jsval \<Rightarrow> jsval \<Rightarrow> request list \<times> (exn + jsval)" where
  "callGemini_p0 parse = callGemini_with (parseAIResponse_p0 parse)"

definition callDeepSeek_p0 ::
  "json_parser \<Rightarrow> fetcher \<Rightarrow> jsval \<Rightarrow> jsval \<Rightarrow> jsval \<Rightarrow> request list \<times> (exn + jsval)" where
  "callDeepSeek_p0 parse = callDeepSeek_with (parseAIResponse_p0 parse)"

section \<open>The dispatcher: handler\<close>

record http_request =
  req_method :: jsstring
  req_body :: jsval

record http_response =
  res_headers :: "(jsstring \<times> jsstring) list"
  res_status :: nat
  res_body :: "jsval option"

definition cors_headers :: "(jsstring \<times> jsstring) list" where
  "cors_headers =
     [(js ''Access-Control-Allow-Origin'', js ''*''),
      (js ''Access-Control-Allow-Methods'', js ''POST, OPTIONS''),
      (js ''Access-Control-Allow-Headers'', js ''Content-Type'')]"

text \<open>\<^verbatim>\<open>res.status(code).end()\<close> and \<^verbatim>\<open>res.status(code).json(v)\<close>\<close>

definition end_with :: "nat \<Rightarrow> http_response" where
  "end_with code = \<lparr>res_headers = cors_headers, res_status = code, res_body = None\<rparr>"

definition json_with :: "nat \<Rightarrow> jsval \<Rightarrow> http_response" where
  "json_with code v = \<lparr>res_headers = cors_headers, res_status = code, res_body = Some v\<rparr>"

definition message_body :: "jsstring \<Rightarrow> jsval" where
  "message_body m = JObj [(js ''message'', JStr m)]"

text \<open>
  \<^verbatim>\<open>const { provider, model, apiKey, prompt } = req.body\<close>: a TypeError on
  \<^verbatim>\<open>undefined\<close> and \<^verbatim>\<open>null\<close>, with the message of V8.
\<close>

definition destructure :: "jsval \<Rightarrow> exn + (jsval \<times> jsval \<times> jsval \<times> jsval)" where
  "destructure body =
     (if body = JUndefined \<or> body = JNull then
        Inl (TypeError (js ''Cannot destructure property '' @ quoted (js ''provider'') @ js '' of ''
               @ quoted (js ''req.body'') @ js '' as it is ''
               @ (if body = JNull then js ''null'' else js ''undefined'') @ js ''.''))
      else Inr (opt_prop body (js ''provider''), opt_prop body (js ''model''),
                opt_prop body (js ''apiKey''), opt_prop body (js ''prompt'')))"

text \<open>The \<^verbatim>\<open>catch\<close> clause of the handler.\<close>

definition internal_error :: "exn \<Rightarrow> http_response" where
  "internal_error e =
     json_with 500 (message_body (if message e = [] then js ''Internal server error'' else message e))"

definition respond :: "request list \<times> (exn + jsval) \<Rightarrow> request list \<times> http_response" where
  "respond r = (fst r, case snd r of Inl e \<Rightarrow> internal_error e | Inr result \<Rightarrow> json_with 200 result)"

text \<open>\<^verbatim>\<open>handler\<close> of \<^verbatim>\<open>src/api/analyze.js\<close>: the outbound calls and the response.\<close>

definition handler :: "json_parser \<Rightarrow> fetcher \<Rightarrow> http_request \<Rightarrow> request list \<times> http_response" where
  "handler parse fetch req =
     (if req_method req = js ''OPTIONS'' then ([], end_with 200)
      else if req_method req \<noteq> js ''POST'' then
        ([], json_with 405 (message_body (js ''Method not allowed'')))
      else case destructure (req_body req) of
        Inl e \<Rightarrow> ([], internal_error e)
      | Inr (provider, model, apiKey, prompt) \<Rightarrow>
          if \<not> truthy apiKey then ([], json_with 400 (message_body (js ''API key is required'')))
          else if \<not> truthy prompt then ([], json_with 400 (message_body (js ''Prompt is required'')))
          else if provider = JStr (js ''gemini'') then
            respond (callGemini parse fetch apiKey model prompt)
          else if provider = JStr (js ''deepseek'') then
            respond (callDeepSeek parse fetch apiKey model prompt)
          else if provider = JStr (js ''openrouter'') then
            respond (callOpenRouter parse fetch apiKey model prompt)
          else (case to_string provider of
                  Inl e \<Rightarrow> ([], internal_error e)
                | Inr p \<Rightarrow> ([], json_with 400 (message_body (js ''Unknown provider: '' @ p)))))"

text \<open>\<^verbatim>\<open>handler\<close> of \<^verbatim>\<open>src/unnamed/part_000\<close>\<close>

definition handler_p0 :: "json_parser \<Rightarrow> fetcher \<Rightarrow> http_request \<Rightarrow> request list \<times> http_response" where
  "handler_p0 parse fetch req =
     (if req_method req = js ''OPTIONS'' then ([], end_with 200)
      else if req_method req \<noteq> js ''POST'' then
        ([], json_with 405 (message_body (js ''Method not allowed'')))
      else case destructure (req_body req) of
        Inl e \<Rightarrow> ([], internal_error e)
      | Inr (provider, model, apiKey, prompt) \<Rightarrow>
          if \<not> truthy apiKey then ([], json_with 400 (message_body (js ''API key is required'')))
          else if \<not> truthy prompt then ([], json_with 400 (message_body (js ''Prompt is required'')))
          else if provider = JStr (js ''gemini'') then
            respond (callGemini_p0 parse fetch apiKey model prompt)
          else if provider = JStr (js ''deepseek'') then
            respond (callDeepSeek_p0 parse fetch apiKey model prompt)
          else ([], json_with 400 (message_body (js ''Unknown provider''))))"

section \<open>The statements of the specification\<close>

text \<open>
  The candidate as the specification describes it: trim; strip one leading fence,
  \<^verbatim>\<open>```json\<close> in any case or a bare one; strip one trailing fence; take the text from
  the first opening brace through the last closing brace.
\<close>

definition spec_strip_leading :: "jsstring \<Rightarrow> jsstring" where
  "spec_strip_leading s =
     (if map ascii_lower (take 7 s) = js ''```json'' then drop 7 s
      else if take 3 s = js ''```'' then drop 3 s else s)"

definition spec_strip_trailing :: "jsstring \<Rightarrow> jsstring" where
  "spec_strip_trailing s =
     (if drop (length s - 3) s = js ''```'' then take (length s - 3) s else s)"

definition first_index :: "code_unit \<Rightarrow> jsstring \<Rightarrow> nat" where
  "first_index c s = length (takeWhile (\<lambda>x. x \<noteq> c) s)"

definition last_index :: "code_unit \<Rightarrow> jsstring \<Rightarrow> nat" where
  "last_index c s = length s - 1 - length (takeWhile (\<lambda>x. x \<noteq> c) (rev s))"

definition spec_span :: "jsstring \<Rightarrow> jsstring option" where
  "spec_span s =
     (if 0x7B \<in> set s \<and> 0x7D \<in> set s \<and> first_index 0x7B s < last_index 0x7D s
      then Some (take (last_index 0x7D s + 1 - first_index 0x7B s) (drop (first_index 0x7B s) s))
      else None)"

definition spec_candidate :: "jsstring \<Rightarrow> jsstring option" where
  "spec_candidate text = spec_span (spec_strip_trailing (spec_strip_leading (trim text)))"






definition brace_free :: "jsstring \<Rightarrow> bool" where
  "brace_free p = (0x7B \<notin> set p \<and> 0x7D \<notin> set p)"

text \<open>
  A keyword entry as the specification describes it: each field is the one of the
  element, or the empty string when that is falsy or the element has none.
\<close>

definition spec_field :: "jsval \<Rightarrow> jsstring \<Rightarrow> jsstring \<times> jsval" where
  "spec_field k n = (n, if truthy (opt_prop k n) then opt_prop k n else JStr [])"

definition spec_entry :: "jsval \<Rightarrow> jsval" where
  "spec_entry k = JObj (map (spec_field k)
     [js ''word'', js ''phonetic'', js ''roots'', js ''origin'', js ''meaning''])"

text \<open>The entries of the second copy have no \<^verbatim>\<open>phonetic\<close>.\<close>

definition spec_entry_p0 :: "jsval \<Rightarrow> jsval" where
  "spec_entry_p0 k = JObj (map (spec_field k)
     [js ''word'', js ''roots'', js ''origin'', js ''meaning''])"

fun is_string :: "jsval \<Rightarrow> bool" where
  "is_string (JStr s) = True"
| "is_string v = False"

fun property_names :: "jsval \<Rightarrow> jsstring list" where
  "property_names (JObj ps) = map fst ps"
| "property_names v = []"

fun object_props :: "jsval \<Rightarrow> jsobject" where
  "object_props (JObj ps) = ps"
| "object_props v = []"

text \<open>The top-level properties other than \<^verbatim>\<open>translation\<close> and \<^verbatim>\<open>keywords\<close>, in order.\<close>

definition other_props :: "jsobject \<Rightarrow> jsobject" where
  "other_props ps = AList.delete (js ''translation'') (AList.delete (js ''keywords'') ps)"

text \<open>
  The canonical result of the specification and the object it is in JavaScript, with
  the properties in the order of the data model.
\<close>

record KeywordEntry =
  entry_word :: jsstring
  entry_phonetic :: jsstring
  entry_roots :: jsstring
  entry_origin :: jsstring
  entry_meaning :: jsstring

record AnalysisResult =
  result_translation :: jsstring
  result_keywords :: "KeywordEntry list"

definition entry_value :: "KeywordEntry \<Rightarrow> jsval" where
  "entry_value k =
     JObj [(js ''word'', JStr (entry_word k)), (js ''phonetic'', JStr (entry_phonetic k)),
           (js ''roots'', JStr (entry_roots k)), (js ''origin'', JStr (entry_origin k)),
           (js ''meaning'', JStr (entry_meaning k))]"

definition result_props :: "AnalysisResult \<Rightarrow> jsobject" where
  "result_props r =
     [(js ''translation'', JStr (result_translation r)),
      (js ''keywords'', JArr (map entry_value (result_keywords r)))]"

section \<open>Concrete runs\<close>

text \<open>
  \<^verbatim>\<open>JSON.parse\<close> on the texts of a table, a syntax error elsewhere, and a network
  that answers every call with the same response.
\<close>

definition parse_table :: "(jsstring \<times> jsobject) list \<Rightarrow> json_parser" where
  "parse_table t s =
     (case map_of t s of Some v \<Rightarrow> Inr v | None \<Rightarrow> Inl (js ''Unexpected token''))"

definition fetch_always :: "response \<Rightarrow> fetcher" where
  "fetch_always r call = Inr r"

definition unparsable_error_response :: response where
  "unparsable_error_response =
     \<lparr>ok = False, status = 502,
      json = Inl (SyntaxError (js ''Unexpected token < in JSON at position 0''))\<rparr>"

definition null_envelope_response :: response where
  "null_envelope_response = \<lparr>ok = True, status = 200, json = Inr JNull\<rparr>"

definition sample_request :: "jsstring \<Rightarrow> jsstring \<Rightarrow> http_request" where
  "sample_request provider apiKey =
     \<lparr>req_method = js ''POST'',
      req_body = JObj [(js ''provider'', JStr provider), (js ''model'', JStr (js ''m'')),
                       (js ''apiKey'', JStr apiKey), (js ''prompt'', JStr (js ''hello''))]\<rparr>"

text \<open>The texts of the runs below and what \<^verbatim>\<open>JSON.parse\<close> makes of their candidates.\<close>

definition null_json :: jsstring where
  \<open>null_json = js ''{"keywords":[null]}''\<close>

definition null_parsed :: jsobject where
  "null_parsed = [(js ''keywords'', JArr [JNull])]"

definition five_json :: jsstring where
  \<open>five_json = js ''{"translation":5}''\<close>

definition five_parsed :: jsobject where
  "five_parsed = [(js ''translation'', JNum (js ''5''))]"

definition run_json :: jsstring where
  \<open>run_json = js ''{"keywords":[{"word":"run"}]}''\<close>

definition run_parsed :: jsobject where
  "run_parsed = [(js ''keywords'', JArr [JObj [(js ''word'', JStr (js ''run''))]])]"

definition run_fenced :: jsstring where
  "run_fenced = js ''```json'' @ [0xA] @ run_json @ [0xA] @ js ''```''"

definition six_json :: jsstring where
  \<open>six_json = js ''{"keywords":[{"word":"a"},2,"c",true,[],{"word":"f"}]}''\<close>

definition six_parsed :: jsobject where
  "six_parsed =
     [(js ''keywords'',
         JArr [JObj [(js ''word'', JStr (js ''a''))], JNum (js ''2''), JStr (js ''c''), JBool True,
               JArr [], JObj [(js ''word'', JStr (js ''f''))]])]"

definition note_json :: jsstring where
  \<open>note_json = js ''{"note":"n","keywords":[{"word":"a","extra":1}]}''\<close>

definition note_parsed :: jsobject where
  "note_parsed =
     [(js ''note'', JStr (js ''n'')),
      (js ''keywords'', JArr [JObj [(js ''word'', JStr (js ''a'')), (js ''extra'', JNum (js ''1''))]])]"

definition note_prose :: jsstring where
  "note_prose = js ''Sure: '' @ note_json @ js '' Done.''"

definition phonetic_json :: jsstring where
  \<open>phonetic_json = js ''{"keywords":[{"word":"a","phonetic":"b"}]}''\<close>

definition phonetic_parsed :: jsobject where
  "phonetic_parsed =
     [(js ''keywords'',
         JArr [JObj [(js ''word'', JStr (js ''a'')), (js ''phonetic'', JStr (js ''b''))]])]"

definition empty_entry :: jsval where
  "empty_entry = JObj [(js ''word'', JStr []), (js ''phonetic'', JStr []), (js ''roots'', JStr []),
     (js ''origin'', JStr []), (js ''meaning'', JStr [])]"

definition empty_entry_p0 :: jsval where
  "empty_entry_p0 = JObj [(js ''word'', JStr []), (js ''roots'', JStr []),
     (js ''origin'', JStr []), (js ''meaning'', JStr [])]"



definition canonical_result :: AnalysisResult where
  "canonical_result =
     \<lparr>result_translation = js ''hi'',
      result_keywords = [\<lparr>entry_word = js ''run'', entry_phonetic = [], entry_roots = [],
                          entry_origin = js ''Old English'', entry_meaning = []\<rparr>]\<rparr>"

definition canonical_json :: jsstring where
  \<open>canonical_json = js ''{"translation":"hi","keywords":[{"word":"run","phonetic":"","roots":"","origin":"Old English","meaning":""}]}''\<close>

definition number_text_response :: response where
  "number_text_response =
     \<lparr>ok = True, status = 200,
      json = Inr (JObj [(js ''candidates'',
               JArr [JObj [(js ''content'',
                 JObj [(js ''parts'', JArr [JObj [(js ''text'', JNum (js ''42''))]])])]])])\<rparr>"

text \<open>The examples of section 8 of the specification.\<close>

definition hi_json :: jsstring where
  \<open>hi_json = js ''{"translation":"hi","keywords":[]}''\<close>

definition hi_parsed :: jsobject where
  "hi_parsed = [(js ''translation'', JStr (js ''hi'')), (js ''keywords'', JArr [])]"

definition hi_fenced :: jsstring where
  "hi_fenced = js ''```json'' @ [0xA] @ hi_json @ [0xA] @ js ''```''"

definition gemini_envelope_response :: response where
  "gemini_envelope_response =
     \<lparr>ok = True, status = 200,
      json = Inr (JObj [(js ''candidates'',
               JArr [JObj [(js ''content'',
                 JObj [(js ''parts'', JArr [JObj [(js ''text'', JStr hi_json)]])])]])])\<rparr>"

definition bad_key_response :: response where
  "bad_key_response =
     \<lparr>ok = False, status = 401,
      json = Inr (JObj [(js ''error'', JObj [(js ''message'', JStr (js ''bad key''))])])\<rparr>"

definition eight_parsed :: jsobject where
  "eight_parsed =
     [(js ''translation'', JStr (js ''t'')),
      (js ''keywords'', JArr (map (\<lambda>w. JObj [(js ''word'', JStr w)])
         [js ''a'', js ''b'', js ''c'', js ''d'', js ''e'', js ''f'', js ''g'', js ''h'']))]"

section \<open>Strings and values\<close>

lemma js_unit_inject: "((of_nat (of_char c) :: code_unit) = of_nat (of_char d)) = (c = d)"
proof
  assume "(of_nat (of_char c) :: code_unit) = of_nat (of_char d)"
  then have "unat (of_nat (of_char c) :: code_unit) = unat (of_nat (of_char d) :: code_unit)"
    by simp
  moreover have "(of_char x :: nat) < 2 ^ 16" for x
    by (rule less_trans [of _ 256]) (simp_all add: of_char_def)
  ultimately have "(of_char c :: nat) = of_char d"
    by (simp add: unat_of_nat)
  then show "c = d" by simp
qed simp

lemma js_inject [simp]: "(js a = js b) = (a = b)"
proof (induction a arbitrary: b)
  case Nil
  then show ?case by (auto simp: js_def)
next
  case (Cons c a)
  then show ?case by (cases b) (auto simp: js_def js_unit_inject)
qed

lemma js_Nil [simp]: "(js a = []) = (a = [])" "([] = js a) = (a = [])"
  by (auto simp: js_def)

lemma keyword_entry_eq:
  "keyword_entry k =
     (if k = JUndefined then get_prop JUndefined (js ''word'')
      else if k = JNull then get_prop JNull (js ''word'')
      else Inr (spec_entry k))"
  by (cases k) (simp_all add: keyword_entry_def bind_exn_def spec_entry_def spec_field_def or_else_def)

lemma keyword_entry_p0_eq:
  "keyword_entry_p0 k =
     (if k = JUndefined then get_prop JUndefined (js ''word'')
      else if k = JNull then get_prop JNull (js ''word'')
      else Inr (spec_entry_p0 k))"
  by (cases k) (simp_all add: keyword_entry_p0_def bind_exn_def spec_entry_p0_def spec_field_def or_else_def)

lemma map_exn_Inr:
  assumes "\<And>k y. f k = Inr y \<Longrightarrow> y = g k"
    and "map_exn f xs = Inr ks"
  shows "ks = map g xs"
  using assms(2)
proof (induction xs arbitrary: ks)
  case Nil
  then show ?case by simp
next
  case (Cons x xs)
  then show ?case
    by (auto split: sum.splits dest: assms(1))
qed

lemma map_exn_keyword_entry:
  "map_exn keyword_entry xs = Inr ks \<Longrightarrow> ks = map spec_entry xs"
  by (erule map_exn_Inr [rotated]) (simp add: keyword_entry_eq split: if_splits)

lemma map_exn_keyword_entry_p0:
  "map_exn keyword_entry_p0 xs = Inr ks \<Longrightarrow> ks = map spec_entry_p0 xs"
  by (erule map_exn_Inr [rotated]) (simp add: keyword_entry_p0_eq split: if_splits)

lemma own_set_prop: "own (set_prop ps n v) m = (if m = n then v else own ps m)"
  by (simp add: own_def set_prop_def update_conv')

lemma own_default_translation:
  "own (default_translation ps) n =
     (if n = js ''translation'' then or_else (own ps n) (JStr []) else own ps n)"
  by (simp add: default_translation_def own_set_prop or_else_def)

lemma own_default_keywords:
  "own (default_keywords ps) n =
     (if n = js ''keywords'' \<and> \<not> isArray (own ps n) then JArr [] else own ps n)"
  by (auto simp: default_keywords_def own_set_prop)

lemma other_props_set_translation:
  "other_props (set_prop ps (js ''translation'') v) = other_props ps"
  by (simp add: other_props_def set_prop_def delete_update delete_update_same)

lemma other_props_set_keywords:
  "other_props (set_prop ps (js ''keywords'') v) = other_props ps"
  by (simp add: other_props_def set_prop_def delete_update_same)

lemma other_props_defaults:
  "other_props (default_keywords (default_translation ps)) = other_props ps"
  by (simp add: default_keywords_def default_translation_def other_props_set_keywords
      other_props_set_translation)

text \<open>What the normalizer returns when it returns.\<close>

lemma coerce_with_Inr:
  assumes "coerce_with entry parsed = Inr r"
  obtains ks where
    "map_exn entry (elements (own (default_keywords (default_translation parsed)) (js ''keywords''))) = Inr ks"
    "r = JObj (set_prop (default_keywords (default_translation parsed)) (js ''keywords'') (JArr (take 5 ks)))"
  using assms by (auto simp: coerce_with_def bind_exn_def Let_def split: sum.splits)

section \<open>The JSON candidate\<close>

lemma json_match_no_open: "0x7B \<notin> set s \<Longrightarrow> json_match s = None"
  by (simp add: json_match_def)

lemma json_match_split:
  assumes "0x7B \<notin> set a"
  shows "json_match (a @ 0x7B # b) =
    (if 0x7D \<in> set b then Some (0x7B # rev (dropWhile (\<lambda>c. c \<noteq> 0x7D) (rev b))) else None)"
proof -
  have "dropWhile (\<lambda>c. c \<noteq> 0x7B) (a @ 0x7B # b) = 0x7B # b"
    using assms by (simp add: dropWhile_append)
  moreover have "(dropWhile (\<lambda>c. c \<noteq> 0x7D) (rev b) = []) = (0x7D \<notin> set b)"
    by (auto simp: dropWhile_eq_Nil_conv)
  ultimately show ?thesis
    by (simp add: json_match_def)
qed

lemma spec_span_no_open: "0x7B \<notin> set s \<Longrightarrow> spec_span s = None"
  by (simp add: spec_span_def)

lemma last_split:
  assumes "(x::code_unit) \<in> set b"
  shows "\<exists>c d. b = c @ x # d \<and> x \<notin> set d \<and> rev (dropWhile (\<lambda>y. y \<noteq> x) (rev b)) = c @ [x]
     \<and> length (takeWhile (\<lambda>y. y \<noteq> x) (rev b)) = length d"
proof -
  from assms obtain c d where b: "b = c @ x # d" and d: "x \<notin> set d"
    using split_list_last by fastforce
  have "dropWhile (\<lambda>y. y \<noteq> x) (rev b) = x # rev c"
    using d by (simp add: b dropWhile_append)
  moreover have "takeWhile (\<lambda>y. y \<noteq> x) (rev b) = rev d"
    using d by (simp add: b takeWhile_append)
  ultimately show ?thesis using b d by auto
qed

lemma spec_span_split:
  assumes "0x7B \<notin> set a"
  shows "spec_span (a @ 0x7B # b) =
    (if 0x7D \<in> set b then Some (0x7B # rev (dropWhile (\<lambda>c. c \<noteq> 0x7D) (rev b))) else None)"
proof (cases "(0x7D::code_unit) \<in> set b")
  case True
  then obtain c d where b: "b = c @ 0x7D # d" and d: "(0x7D::code_unit) \<notin> set d"
    and r: "rev (dropWhile (\<lambda>y. y \<noteq> 0x7D) (rev b)) = c @ [0x7D]"
    using last_split by blast
  let ?s = "a @ 0x7B # c @ 0x7D # d"
  have fi: "first_index 0x7B ?s = length a"
    using assms by (simp add: first_index_def takeWhile_append)
  have "takeWhile (\<lambda>y. y \<noteq> 0x7D) (rev ?s) = rev d"
    using d by (simp add: takeWhile_append)
  then have li: "last_index 0x7D ?s = length a + 1 + length c"
    by (simp add: last_index_def)
  have "spec_span ?s = Some (0x7B # c @ [0x7D])"
    unfolding spec_span_def fi li by simp
  then show ?thesis
    using True r by (simp add: b)
next
  case False
  show ?thesis
  proof (cases "(0x7D::code_unit) \<in> set a")
    case True
    then obtain c d where a: "a = c @ 0x7D # d" and d: "(0x7D::code_unit) \<notin> set d"
      using split_list_last by fastforce
    let ?s = "(c @ 0x7D # d) @ 0x7B # b"
    have fi: "first_index 0x7B ?s = length (c @ 0x7D # d)"
      using assms unfolding a by (simp add: first_index_def takeWhile_append)
    have "takeWhile (\<lambda>y. y \<noteq> 0x7D) (rev ?s) = rev b @ 0x7B # rev d"
      using d False by (simp add: takeWhile_append)
    then have li: "last_index 0x7D ?s = length c"
      by (simp add: last_index_def)
    have "spec_span ?s = None"
      unfolding spec_span_def fi li by simp
    then show ?thesis using False by (simp add: a)
  next
    case F2: False
    show ?thesis using False F2 by (simp add: spec_span_def)
  qed
qed

lemma json_match_spec_span: "json_match s = spec_span s"
proof (cases "(0x7B::code_unit) \<in> set s")
  case True
  then obtain a b where "s = a @ 0x7B # b" "(0x7B::code_unit) \<notin> set a"
    using split_list_first by fastforce
  then show ?thesis by (simp add: json_match_split spec_span_split)
next
  case False
  then show ?thesis by (simp add: json_match_no_open spec_span_no_open)
qed


lemma json_match_prefix:
  assumes "0x7B \<notin> set p"
  shows "json_match (p @ s) = json_match s"
proof -
  have "dropWhile (\<lambda>c. c \<noteq> 0x7B) (p @ s) = dropWhile (\<lambda>c. c \<noteq> 0x7B) s"
    using assms by (intro dropWhile_append2) auto
  then show ?thesis by (simp add: json_match_def)
qed

lemma json_match_suffix:
  assumes "brace_free q"
  shows "json_match (s @ q) = json_match s"
proof (cases "(0x7B::code_unit) \<in> set s")
  case True
  then obtain a b where s: "s = a @ 0x7B # b" and a: "(0x7B::code_unit) \<notin> set a"
    using split_list_first by fastforce
  have q: "(0x7D::code_unit) \<notin> set q"
    using assms by (simp add: brace_free_def)
  have "dropWhile (\<lambda>c. c \<noteq> 0x7D) (rev q @ rev b) = dropWhile (\<lambda>c. c \<noteq> 0x7D) (rev b)"
    using q by (intro dropWhile_append2) auto
  then have "rev (dropWhile (\<lambda>c. c \<noteq> 0x7D) (rev (b @ q))) = rev (dropWhile (\<lambda>c. c \<noteq> 0x7D) (rev b))"
    by simp
  then have "json_match (a @ 0x7B # (b @ q)) = json_match (a @ 0x7B # b)"
    using q unfolding json_match_split [OF a] by simp
  then show ?thesis by (simp add: s)
next
  case False
  then have "(0x7B::code_unit) \<notin> set (s @ q)"
    using assms by (simp add: brace_free_def)
  then have "json_match (s @ q) = None"
    by (rule json_match_no_open)
  moreover have "json_match s = None"
    using False by (rule json_match_no_open)
  ultimately show ?thesis by simp
qed

lemma space_not_brace: "is_space c \<Longrightarrow> c \<noteq> 0x7B \<and> c \<noteq> 0x7D"
  by (auto simp: is_space_def)

lemma brace_free_takeWhile_space: "brace_free (takeWhile is_space s)"
  using space_not_brace by (auto simp: brace_free_def dest!: set_takeWhileD)

lemma brace_free_rev: "brace_free (rev p) = brace_free p"
  by (simp add: brace_free_def)

lemma brace_free_fence: "brace_free (js ''```'')"
  by (simp add: brace_free_def js_def)

lemma brace_free_json_fence:
  assumes "map ascii_lower p = js ''```json''"
  shows "brace_free p"
proof -
  have "c \<in> set p \<Longrightarrow> c \<noteq> 0x7B \<and> c \<noteq> 0x7D" for c
  proof
    assume c: "c \<in> set p"
    then have "ascii_lower c \<in> set (js ''```json'')"
      using assms by (metis image_eqI set_map)
    then show "c \<noteq> 0x7B" "c \<noteq> 0x7D"
      by (auto simp: js_def ascii_lower_def split: if_splits)
  qed
  then show ?thesis by (auto simp: brace_free_def)
qed

text \<open>Each step removes a prefix or a suffix without braces.\<close>

lemma json_match_dropWhile_space: "json_match (dropWhile is_space s) = json_match s"
proof -
  have "json_match (takeWhile is_space s @ dropWhile is_space s) = json_match (dropWhile is_space s)"
    using brace_free_takeWhile_space [of s] by (intro json_match_prefix) (simp add: brace_free_def)
  then show ?thesis by simp
qed

lemma json_match_rev_dropWhile_space:
  "json_match (rev (dropWhile is_space (rev s))) = json_match s"
proof -
  have "brace_free (rev (takeWhile is_space (rev s)))"
    by (simp add: brace_free_rev brace_free_takeWhile_space)
  then have "json_match (rev (dropWhile is_space (rev s)) @ rev (takeWhile is_space (rev s)))
      = json_match (rev (dropWhile is_space (rev s)))"
    by (rule json_match_suffix)
  moreover have "rev (dropWhile is_space (rev s)) @ rev (takeWhile is_space (rev s)) = s"
    by (metis rev_append rev_rev_ident takeWhile_dropWhile_id)
  ultimately show ?thesis by simp
qed

lemma json_match_drop:
  assumes "brace_free (take n s)"
  shows "json_match (drop n s) = json_match s"
proof -
  have "json_match (take n s @ drop n s) = json_match (drop n s)"
    using assms by (intro json_match_prefix) (simp add: brace_free_def)
  then show ?thesis by simp
qed

lemma json_match_trim: "json_match (trim s) = json_match s"
  by (simp add: trim_def json_match_rev_dropWhile_space json_match_dropWhile_space)

lemma json_match_replace_json_fence: "json_match (replace_json_fence s) = json_match s"
  by (simp add: replace_json_fence_def json_match_dropWhile_space json_match_drop
      brace_free_json_fence)

lemma json_match_replace_fence: "json_match (replace_fence s) = json_match s"
  by (simp add: replace_fence_def json_match_dropWhile_space json_match_drop brace_free_fence)

lemma json_match_butlast3:
  assumes "take 3 (rev s) = js ''```''"
  shows "json_match (rev (drop 3 (rev s))) = json_match s"
proof -
  have "brace_free (rev (take 3 (rev s)))"
    by (simp only: assms brace_free_rev brace_free_fence)
  then have "json_match (rev (drop 3 (rev s)) @ rev (take 3 (rev s))) = json_match (rev (drop 3 (rev s)))"
    by (rule json_match_suffix)
  moreover have "rev (drop 3 (rev s)) @ rev (take 3 (rev s)) = s"
    by (metis append_take_drop_id rev_append rev_rev_ident)
  ultimately show ?thesis by simp
qed

lemma json_match_replace_fence_end: "json_match (replace_fence_end s) = json_match s"
proof (cases "take 3 (rev s) = js ''```''")
  case True
  have "json_match (rev (dropWhile is_space (rev (rev (drop 3 (rev s))))))
      = json_match (rev (drop 3 (rev s)))"
    by (rule json_match_rev_dropWhile_space)
  then show ?thesis using True by (simp add: replace_fence_end_def json_match_butlast3)
next
  case False
  then show ?thesis by (simp add: replace_fence_end_def)
qed

lemma json_match_cleanText: "json_match (cleanText text) = json_match text"
  by (simp add: cleanText_def json_match_replace_fence_end json_match_replace_fence
      json_match_replace_json_fence json_match_trim)

lemma json_match_spec_strip_leading: "json_match (spec_strip_leading s) = json_match s"
  by (simp add: spec_strip_leading_def json_match_drop brace_free_json_fence brace_free_fence)

lemma json_match_spec_strip_trailing: "json_match (spec_strip_trailing s) = json_match s"
proof (cases "drop (length s - 3) s = js ''```''")
  case True
  then have "brace_free (drop (length s - 3) s)"
    by (simp add: brace_free_fence)
  then have "json_match (take (length s - 3) s @ drop (length s - 3) s) = json_match (take (length s - 3) s)"
    by (rule json_match_suffix)
  then have "json_match s = json_match (take (length s - 3) s)"
    by (simp only: append_take_drop_id)
  then show ?thesis using True by (simp add: spec_strip_trailing_def)
next
  case False
  then show ?thesis by (simp add: spec_strip_trailing_def)
qed

lemma spec_candidate_eq: "spec_candidate text = json_match (cleanText text)"
  by (simp add: spec_candidate_def json_match_spec_span [symmetric] json_match_cleanText
      json_match_spec_strip_trailing json_match_spec_strip_leading json_match_trim)

text \<open>
  So the candidate does not depend on the fences: for every text it is the one of the
  steps as the specification words them.
\<close>

lemma candidate_of_specified_steps:
  "json_match (cleanText text) = spec_candidate text"
  by (simp add: spec_candidate_eq)











section \<open>The coercion\<close>

lemma elements_default_keywords:
  "elements (own (default_keywords (default_translation parsed)) (js ''keywords''))
     = elements (own parsed (js ''keywords''))"
  by (cases "own parsed (js ''keywords'')")
     (simp_all add: own_default_keywords own_default_translation)

lemma coerce_with_result:
  assumes "coerce_with entry parsed = Inr r"
    and "\<And>xs ks. map_exn entry xs = Inr ks \<Longrightarrow> ks = map g xs"
  shows "r = JObj (set_prop (default_keywords (default_translation parsed)) (js ''keywords'')
            (JArr (map g (take 5 (elements (own parsed (js ''keywords'')))))))"
proof -
  from assms(1) obtain ks where
    ks: "map_exn entry (elements (own (default_keywords (default_translation parsed)) (js ''keywords''))) = Inr ks"
    and r: "r = JObj (set_prop (default_keywords (default_translation parsed)) (js ''keywords'') (JArr (take 5 ks)))"
    by (rule coerce_with_Inr)
  from ks have "ks = map g (elements (own parsed (js ''keywords'')))"
    by (simp only: elements_default_keywords assms(2))
  then show ?thesis by (simp add: r take_map)
qed

lemma parseAIResponse_result:
  assumes "json_match (cleanText text) = Some candidate"
    and "parse candidate = Inr parsed"
    and "parseAIResponse parse (JStr text) = Inr r"
  shows "r = JObj (set_prop (default_keywords (default_translation parsed)) (js ''keywords'')
            (JArr (map spec_entry (take 5 (elements (own parsed (js ''keywords'')))))))"
proof -
  have "coerce_with keyword_entry parsed = Inr r"
    using assms by (simp add: parseAIResponse_def try_block_def split: sum.splits)
  then show ?thesis
    by (rule coerce_with_result) (rule map_exn_keyword_entry)
qed

lemma parseAIResponse_p0_result:
  assumes "json_match (cleanText text) = Some candidate"
    and "parse candidate = Inr parsed"
    and "parseAIResponse_p0 parse (JStr text) = Inr r"
  shows "r = JObj (set_prop (default_keywords (default_translation parsed)) (js ''keywords'')
            (JArr (map spec_entry_p0 (take 5 (elements (own parsed (js ''keywords'')))))))"
proof -
  have "coerce_with keyword_entry_p0 parsed = Inr r"
    using assms by (simp add: parseAIResponse_p0_def try_block_def split: sum.splits)
  then show ?thesis
    by (rule coerce_with_result) (rule map_exn_keyword_entry_p0)
qed

lemma or_else_empty_present: "or_else v (JStr []) \<noteq> JUndefined"
  by (cases v) (simp_all add: or_else_def)

lemma or_else_empty_string: "is_string v \<or> \<not> truthy v \<Longrightarrow> is_string (or_else v (JStr []))"
  by (cases v) (simp_all add: or_else_def)

text \<open>
  Claim C2, amended. When the normalizer returns, the result has a \<^verbatim>\<open>translation\<close>: the
  empty string when the parsed one is falsy (absent, \<^verbatim>\<open>null\<close>, empty, \<^verbatim>\<open>0\<close>,
  \<^verbatim>\<open>false\<close>), and the parsed value itself, unchanged, when that is truthy. So it is a
  string whenever the parsed value is a string or falsy; a truthy number, \<^verbatim>\<open>true\<close>, an
  array or an object stays what it is.
\<close>

theorem translation_defaulted:
  assumes "json_match (cleanText raw) = Some candidate"
    and "parse candidate = Inr parsed"
    and "parseAIResponse parse (JStr raw) = Inr r"
  shows "opt_prop r (js ''translation'') =
           (if truthy (own parsed (js ''translation'')) then own parsed (js ''translation'')
            else JStr [])
       \<and> opt_prop r (js ''translation'') \<noteq> JUndefined
       \<and> (is_string (own parsed (js ''translation'')) \<or> \<not> truthy (own parsed (js ''translation''))
            \<longrightarrow> is_string (opt_prop r (js ''translation'')))"
proof -
  have "opt_prop r (js ''translation'') = or_else (own parsed (js ''translation'')) (JStr [])"
    by (simp add: parseAIResponse_result [OF assms] own_set_prop own_default_keywords
        own_default_translation)
  then show ?thesis
    using or_else_empty_present or_else_empty_string by (simp add: or_else_def)
qed

text \<open>
  Claim C5, amended. When the normalizer returns, \<^verbatim>\<open>keywords\<close> holds the entries made from
  the first five elements of the parsed \<^verbatim>\<open>keywords\<close>, in their order (none when that is
  not an array), so at most five. In \<^verbatim>\<open>src/api/analyze.js\<close> an entry has the five fields
  \<^verbatim>\<open>word\<close>, \<^verbatim>\<open>phonetic\<close>, \<^verbatim>\<open>roots\<close>, \<^verbatim>\<open>origin\<close>, \<^verbatim>\<open>meaning\<close>; in the second copy
  of the normalizer (\<^verbatim>\<open>src/unnamed/part_000\<close>) it has the four fields \<^verbatim>\<open>word\<close>,
  \<^verbatim>\<open>roots\<close>, \<^verbatim>\<open>origin\<close>, \<^verbatim>\<open>meaning\<close>. Each field is the empty string when the one of
  the element is falsy or missing.
\<close>

theorem keywords_first_five:
  assumes "json_match (cleanText raw) = Some candidate"
    and "parse candidate = Inr parsed"
  shows "(parseAIResponse parse (JStr raw) = Inr r \<longrightarrow>
            opt_prop r (js ''keywords'')
              = JArr (map spec_entry (take 5 (elements (own parsed (js ''keywords'')))))
          \<and> length (elements (opt_prop r (js ''keywords''))) \<le> 5)
       \<and> (parseAIResponse_p0 parse (JStr raw) = Inr rp \<longrightarrow>
            opt_prop rp (js ''keywords'')
              = JArr (map spec_entry_p0 (take 5 (elements (own parsed (js ''keywords'')))))
          \<and> length (elements (opt_prop rp (js ''keywords''))) \<le> 5)"
proof (intro conjI impI)
  assume r: "parseAIResponse parse (JStr raw) = Inr r"
  show k: "opt_prop r (js ''keywords'')
      = JArr (map spec_entry (take 5 (elements (own parsed (js ''keywords'')))))"
    by (simp add: parseAIResponse_result [OF assms r] own_set_prop)
  show "length (elements (opt_prop r (js ''keywords''))) \<le> 5"
    by (simp add: k)
next
  assume rp: "parseAIResponse_p0 parse (JStr raw) = Inr rp"
  show k: "opt_prop rp (js ''keywords'')
      = JArr (map spec_entry_p0 (take 5 (elements (own parsed (js ''keywords'')))))"
    by (simp add: parseAIResponse_p0_result [OF assms rp] own_set_prop)
  show "length (elements (opt_prop rp (js ''keywords''))) \<le> 5"
    by (simp add: k)
qed

lemma property_names_spec_entry:
  "property_names (spec_entry k)
     = [js ''word'', js ''phonetic'', js ''roots'', js ''origin'', js ''meaning'']"
  by (simp add: spec_entry_def spec_field_def)

lemma property_names_spec_entry_p0:
  "property_names (spec_entry_p0 k) = [js ''word'', js ''roots'', js ''origin'', js ''meaning'']"
  by (simp add: spec_entry_p0_def spec_field_def)

text \<open>
  Claim C10, amended. When the normalizer returns, the top-level properties other than
  \<^verbatim>\<open>translation\<close> and \<^verbatim>\<open>keywords\<close> are those of the parsed object, with their values and
  in their order, and every keyword entry is a new object with exactly the fields the
  callback builds: the five of \<^verbatim>\<open>src/api/analyze.js\<close>, or the four of the second copy
  (\<^verbatim>\<open>src/unnamed/part_000\<close>), where \<^verbatim>\<open>phonetic\<close> is dropped with the rest.
\<close>

theorem other_properties_kept:
  assumes "json_match (cleanText raw) = Some candidate"
    and "parse candidate = Inr parsed"
  shows "(parseAIResponse parse (JStr raw) = Inr r \<longrightarrow>
            other_props (object_props r) = other_props parsed
          \<and> list_all (\<lambda>e. property_names e
                 = [js ''word'', js ''phonetic'', js ''roots'', js ''origin'', js ''meaning''])
               (elements (opt_prop r (js ''keywords''))))
       \<and> (parseAIResponse_p0 parse (JStr raw) = Inr rp \<longrightarrow>
            other_props (object_props rp) = other_props parsed
          \<and> list_all (\<lambda>e. property_names e
                 = [js ''word'', js ''roots'', js ''origin'', js ''meaning''])
               (elements (opt_prop rp (js ''keywords''))))"
proof (intro conjI impI)
  assume r: "parseAIResponse parse (JStr raw) = Inr r"
  show "other_props (object_props r) = other_props parsed"
    by (simp add: parseAIResponse_result [OF assms r] other_props_set_keywords other_props_defaults)
  show "list_all (\<lambda>e. property_names e
                 = [js ''word'', js ''phonetic'', js ''roots'', js ''origin'', js ''meaning''])
               (elements (opt_prop r (js ''keywords'')))"
    by (simp add: parseAIResponse_result [OF assms r] own_set_prop list_all_iff
        property_names_spec_entry)
next
  assume rp: "parseAIResponse_p0 parse (JStr raw) = Inr rp"
  show "other_props (object_props rp) = other_props parsed"
    by (simp add: parseAIResponse_p0_result [OF assms rp] other_props_set_keywords other_props_defaults)
  show "list_all (\<lambda>e. property_names e
                 = [js ''word'', js ''roots'', js ''origin'', js ''meaning''])
               (elements (opt_prop rp (js ''keywords'')))"
    by (simp add: parseAIResponse_p0_result [OF assms rp] own_set_prop list_all_iff
        property_names_spec_entry_p0)
qed

lemmas text_defs = cleanText_def trim_def is_space_def replace_json_fence_def replace_fence_def
  replace_fence_end_def json_match_def ascii_lower_def js_def

lemmas value_defs = parseAIResponse_def parseAIResponse_p0_def parse_table_def try_block_def
  coerce_with_def default_translation_def default_keywords_def own_def set_prop_def
  keyword_entry_def keyword_entry_p0_def bind_exn_def quoted_def or_else_def

subsection \<open>Idempotence\<close>

lemma not_space_brace: "\<not> is_space 0x7B" "\<not> is_space 0x7D"
  by (simp_all add: is_space_def)

lemma cleanText_object_text:
  assumes "s \<noteq> []" "hd s = 0x7B" "last s = 0x7D"
  shows "cleanText s = s"
proof -
  from assms obtain b where s: "s = 0x7B # b"
    by (cases s) auto
  have r: "rev s \<noteq> []" "hd (rev s) = 0x7D"
    using assms by (simp_all add: hd_rev)
  then obtain d where d: "rev s = 0x7D # d"
    by (cases "rev s") auto
  have "dropWhile is_space s = s"
    by (simp add: s not_space_brace)
  moreover have "dropWhile is_space (rev s) = rev s"
    by (simp add: d not_space_brace)
  ultimately have "trim s = s"
    by (simp add: trim_def)
  moreover have "replace_json_fence s = s"
    by (simp add: replace_json_fence_def s js_def ascii_lower_def)
  moreover have "replace_fence s = s"
    by (simp add: replace_fence_def s js_def)
  moreover have "replace_fence_end s = s"
    by (simp add: replace_fence_end_def d js_def)
  ultimately show ?thesis by (simp add: cleanText_def)
qed

lemma json_match_object_text:
  assumes "s \<noteq> []" "hd s = 0x7B" "last s = 0x7D"
  shows "json_match s = Some s"
proof -
  from assms obtain b where s: "s = 0x7B # b"
    by (cases s) auto
  have b: "b \<noteq> []" "last b = 0x7D"
    using assms(3) by (auto simp: s split: if_splits)
  then obtain d where d: "rev b = 0x7D # d"
    by (cases "rev b") (auto simp: hd_rev [symmetric])
  have "dropWhile (\<lambda>c. c \<noteq> 0x7D) (rev b) = rev b"
    by (simp add: d)
  then have "rev (dropWhile (\<lambda>c. c \<noteq> 0x7D) (rev b)) = b"
    by simp
  then show ?thesis using b by (simp add: json_match_def s)
qed

lemma keyword_entry_entry_value: "keyword_entry (entry_value k) = Inr (entry_value k)"
  by (simp add: keyword_entry_def entry_value_def bind_exn_def own_def or_else_def)

lemma coerce_result_props:
  assumes "length (result_keywords r) \<le> 5"
  shows "coerce_with keyword_entry (result_props r) = Inr (JObj (result_props r))"
proof -
  have t: "default_translation (result_props r) = result_props r"
    by (simp add: default_translation_def result_props_def own_def set_prop_def)
  have k: "default_keywords (result_props r) = result_props r"
    by (simp add: default_keywords_def result_props_def own_def)
  have e: "elements (own (result_props r) (js ''keywords'')) = map entry_value (result_keywords r)"
    by (simp add: result_props_def own_def)
  have m: "map_exn keyword_entry (map entry_value ks) = Inr (map entry_value ks)" for ks
    by (induction ks) (simp_all add: keyword_entry_entry_value)
  have "set_prop (result_props r) (js ''keywords'') (JArr (take 5 (map entry_value (result_keywords r))))
      = result_props r"
    using assms by (simp add: result_props_def set_prop_def)
  then show ?thesis
    by (simp add: coerce_with_def t k e m bind_exn_def)
qed

text \<open>
  Claim C9. For a canonical result (a string \<^verbatim>\<open>translation\<close>, at most five entries with
  five string fields each), a JSON text of it, which begins with the opening brace of the
  object, ends with its closing brace and is parsed back to it, is normalized by
  \<^verbatim>\<open>src/api/analyze.js\<close> to that same result.
\<close>

theorem normalizer_idempotent:
  assumes "length (result_keywords r) \<le> 5"
    and "s \<noteq> []" and "hd s = 0x7B" and "last s = 0x7D"
    and "parse s = Inr (result_props r)"
  shows "parseAIResponse parse (JStr s) = Inr (JObj (result_props r))"
  using assms
  by (simp add: parseAIResponse_def cleanText_object_text json_match_object_text try_block_def
      coerce_result_props)

lemmas run_defs = null_json_def null_parsed_def five_json_def five_parsed_def run_json_def
  run_parsed_def run_fenced_def six_json_def six_parsed_def note_json_def note_parsed_def
  note_prose_def phonetic_json_def phonetic_parsed_def canonical_result_def canonical_json_def

text \<open>
  Claim C1 fails on the code. The candidate \<^verbatim>\<open>{"keywords":[null]}\<close> is valid JSON, and
  the callback of \<^verbatim>\<open>map\<close> reads \<^verbatim>\<open>k.word\<close> of \<^verbatim>\<open>null\<close>: the TypeError is caught
  and both copies of the normalizer fail with \<^verbatim>\<open>Failed to parse AI response: ...\<close>.
\<close>

theorem coercion_fails_on_null_keyword:
  "parse_table [(null_json, null_parsed)] null_json = Inr null_parsed
   \<and> parseAIResponse (parse_table [(null_json, null_parsed)]) (JStr null_json)
      = Inl (Error (js ''Failed to parse AI response: Cannot read properties of null (reading ''
               @ quoted (js ''word'') @ js '')''))
   \<and> parseAIResponse_p0 (parse_table [(null_json, null_parsed)]) (JStr null_json)
      = Inl (Error (js ''Failed to parse AI response: Cannot read properties of null (reading ''
               @ quoted (js ''word'') @ js '')''))"
  by (simp add: run_defs text_defs value_defs)

text \<open>Elsewhere the coercion is total: it fails exactly on such an element.\<close>

lemma map_exn_fails_iff:
  "(\<exists>e. map_exn f xs = Inl e) = (\<exists>x \<in> set xs. \<exists>e. f x = Inl e)"
proof (induction xs)
  case Nil
  show ?case by simp
next
  case (Cons x xs)
  show ?case
  proof (cases "f x")
    case (Inl e)
    then show ?thesis by auto
  next
    case (Inr y)
    have "(\<exists>e. map_exn f (x # xs) = Inl e) = (\<exists>e. map_exn f xs = Inl e)"
      by (cases "map_exn f xs") (simp_all add: Inr)
    then show ?thesis by (simp add: Cons.IH Inr)
  qed
qed

lemma coercion_fails_iff:
  "(\<exists>e. coerce_with keyword_entry parsed = Inl e)
     = (JUndefined \<in> set (elements (own parsed (js ''keywords'')))
        \<or> JNull \<in> set (elements (own parsed (js ''keywords''))))"
proof -
  have "(\<exists>e. coerce_with keyword_entry parsed = Inl e)
      = (\<exists>e. map_exn keyword_entry (elements (own parsed (js ''keywords''))) = Inl e)"
    by (cases "map_exn keyword_entry (elements (own parsed (js ''keywords'')))")
       (simp_all add: coerce_with_def bind_exn_def elements_default_keywords)
  also have "\<dots> = (\<exists>x \<in> set (elements (own parsed (js ''keywords''))). x = JUndefined \<or> x = JNull)"
    by (auto simp: map_exn_fails_iff keyword_entry_eq)
  finally show ?thesis by auto
qed

text \<open>
  Claim C2 as stated fails: the text \<^verbatim>\<open>{"translation":5}\<close> is normalized to a result whose
  \<^verbatim>\<open>translation\<close> is the number 5.
\<close>

theorem translation_number_counterexample:
  "parseAIResponse (parse_table [(five_json, five_parsed)]) (JStr five_json)
     = Inr (JObj [(js ''translation'', JNum (js ''5'')), (js ''keywords'', JArr [])])
   \<and> \<not> is_string (opt_prop (JObj [(js ''translation'', JNum (js ''5'')), (js ''keywords'', JArr [])])
          (js ''translation''))"
  by (simp add: run_defs text_defs value_defs)

lemma run_candidate: "json_match (cleanText run_fenced) = Some run_json"
  by (simp add: run_defs text_defs)

lemma run_parse: "parse_table [(run_json, run_parsed)] run_json = Inr run_parsed"
  by (simp add: parse_table_def)

lemma run_result:
  "parseAIResponse (parse_table [(run_json, run_parsed)]) (JStr run_fenced)
     = Inr (JObj [(js ''keywords'', JArr [JObj [(js ''word'', JStr (js ''run'')),
                     (js ''phonetic'', JStr []), (js ''roots'', JStr []), (js ''origin'', JStr []),
                     (js ''meaning'', JStr [])]]),
                  (js ''translation'', JStr [])])"
  by (simp add: run_defs text_defs value_defs)

text \<open>
  The defaulting example of the specification, inside a fence: no \<^verbatim>\<open>translation\<close> in
  the text, the empty string in the result.
\<close>

theorem translation_defaulted_witness:
  "json_match (cleanText run_fenced) = Some run_json
   \<and> parse_table [(run_json, run_parsed)] run_json = Inr run_parsed
   \<and> opt_prop (JObj [(js ''keywords'', JArr [JObj [(js ''word'', JStr (js ''run'')),
                     (js ''phonetic'', JStr []), (js ''roots'', JStr []), (js ''origin'', JStr []),
                     (js ''meaning'', JStr [])]]),
                  (js ''translation'', JStr [])]) (js ''translation'') = JStr []"
  using translation_defaulted [OF run_candidate run_parse run_result] run_candidate run_parse
  by (simp add: own_def)

lemma six_candidate: "json_match (cleanText six_json) = Some six_json"
  by (simp add: run_defs text_defs)

lemma six_parse: "parse_table [(six_json, six_parsed)] six_json = Inr six_parsed"
  by (simp add: parse_table_def)

lemma six_result:
  "parseAIResponse (parse_table [(six_json, six_parsed)]) (JStr six_json)
     = Inr (JObj [(js ''keywords'',
              JArr [JObj [(js ''word'', JStr (js ''a'')), (js ''phonetic'', JStr []),
                          (js ''roots'', JStr []), (js ''origin'', JStr []), (js ''meaning'', JStr [])],
                    empty_entry, empty_entry, empty_entry, empty_entry]),
            (js ''translation'', JStr [])])"
  by (simp add: run_defs text_defs value_defs empty_entry_def)

lemma six_result_p0:
  "parseAIResponse_p0 (parse_table [(six_json, six_parsed)]) (JStr six_json)
     = Inr (JObj [(js ''keywords'',
              JArr [JObj [(js ''word'', JStr (js ''a'')), (js ''roots'', JStr []),
                          (js ''origin'', JStr []), (js ''meaning'', JStr [])],
                    empty_entry_p0, empty_entry_p0, empty_entry_p0, empty_entry_p0]),
            (js ''translation'', JStr [])])"
  by (simp add: run_defs text_defs value_defs empty_entry_p0_def)

text \<open>
  Six elements, some of them not objects: both copies keep the first five.
\<close>

theorem keywords_first_five_witness:
  "json_match (cleanText six_json) = Some six_json
   \<and> parse_table [(six_json, six_parsed)] six_json = Inr six_parsed
   \<and> map spec_entry (take 5 (elements (own six_parsed (js ''keywords''))))
      = [JObj [(js ''word'', JStr (js ''a'')), (js ''phonetic'', JStr []),
               (js ''roots'', JStr []), (js ''origin'', JStr []), (js ''meaning'', JStr [])],
         empty_entry, empty_entry, empty_entry, empty_entry]
   \<and> map spec_entry_p0 (take 5 (elements (own six_parsed (js ''keywords''))))
      = [JObj [(js ''word'', JStr (js ''a'')), (js ''roots'', JStr []),
               (js ''origin'', JStr []), (js ''meaning'', JStr [])],
         empty_entry_p0, empty_entry_p0, empty_entry_p0, empty_entry_p0]"
  using keywords_first_five [where raw = six_json and candidate = six_json
      and parse = "parse_table [(six_json, six_parsed)]" and parsed = six_parsed
      and r = "JObj [(js ''keywords'',
              JArr [JObj [(js ''word'', JStr (js ''a'')), (js ''phonetic'', JStr []),
                          (js ''roots'', JStr []), (js ''origin'', JStr []), (js ''meaning'', JStr [])],
                    empty_entry, empty_entry, empty_entry, empty_entry]),
            (js ''translation'', JStr [])]"
      and rp = "JObj [(js ''keywords'',
              JArr [JObj [(js ''word'', JStr (js ''a'')), (js ''roots'', JStr []),
                          (js ''origin'', JStr []), (js ''meaning'', JStr [])],
                    empty_entry_p0, empty_entry_p0, empty_entry_p0, empty_entry_p0]),
            (js ''translation'', JStr [])]"]
    six_candidate six_parse six_result six_result_p0
  by (simp add: own_def)

text \<open>
  Claim C5 as stated fails in the second copy: on the defaulting example of the
  specification the entry it returns has no \<^verbatim>\<open>phonetic\<close>.
\<close>

theorem keywords_four_fields_counterexample:
  "parseAIResponse_p0 (parse_table [(run_json, run_parsed)]) (JStr run_fenced)
     = Inr (JObj [(js ''keywords'', JArr [JObj [(js ''word'', JStr (js ''run'')),
                     (js ''roots'', JStr []), (js ''origin'', JStr []), (js ''meaning'', JStr [])]]),
                  (js ''translation'', JStr [])])
   \<and> opt_prop (JObj [(js ''word'', JStr (js ''run'')),
                     (js ''roots'', JStr []), (js ''origin'', JStr []), (js ''meaning'', JStr [])])
         (js ''phonetic'') = JUndefined"
  by (simp add: run_defs text_defs value_defs)

lemma note_candidate: "json_match (cleanText note_prose) = Some note_json"
  by (simp add: run_defs text_defs)

lemma note_parse: "parse_table [(note_json, note_parsed)] note_json = Inr note_parsed"
  by (simp add: parse_table_def)

lemma note_result:
  "parseAIResponse (parse_table [(note_json, note_parsed)]) (JStr note_prose)
     = Inr (JObj [(js ''note'', JStr (js ''n'')),
                  (js ''keywords'', JArr [JObj [(js ''word'', JStr (js ''a'')),
                     (js ''phonetic'', JStr []), (js ''roots'', JStr []), (js ''origin'', JStr []),
                     (js ''meaning'', JStr [])]]),
                  (js ''translation'', JStr [])])"
  by (simp add: run_defs text_defs value_defs)

lemma note_result_p0:
  "parseAIResponse_p0 (parse_table [(note_json, note_parsed)]) (JStr note_prose)
     = Inr (JObj [(js ''note'', JStr (js ''n'')),
                  (js ''keywords'', JArr [JObj [(js ''word'', JStr (js ''a'')),
                     (js ''roots'', JStr []), (js ''origin'', JStr []), (js ''meaning'', JStr [])]]),
                  (js ''translation'', JStr [])])"
  by (simp add: run_defs text_defs value_defs)

text \<open>
  A text with prose around the object: \<^verbatim>\<open>note\<close> is kept and \<^verbatim>\<open>extra\<close> is dropped from
  the entry.
\<close>

theorem other_properties_kept_witness:
  "json_match (cleanText note_prose) = Some note_json
   \<and> parse_table [(note_json, note_parsed)] note_json = Inr note_parsed
   \<and> other_props note_parsed = [(js ''note'', JStr (js ''n''))]
   \<and> other_props [(js ''note'', JStr (js ''n'')),
                  (js ''keywords'', JArr [JObj [(js ''word'', JStr (js ''a'')),
                     (js ''phonetic'', JStr []), (js ''roots'', JStr []), (js ''origin'', JStr []),
                     (js ''meaning'', JStr [])]]),
                  (js ''translation'', JStr [])] = [(js ''note'', JStr (js ''n''))]
   \<and> other_props [(js ''note'', JStr (js ''n'')),
                  (js ''keywords'', JArr [JObj [(js ''word'', JStr (js ''a'')),
                     (js ''roots'', JStr []), (js ''origin'', JStr []), (js ''meaning'', JStr [])]]),
                  (js ''translation'', JStr [])] = [(js ''note'', JStr (js ''n''))]"
  using other_properties_kept [where raw = note_prose and candidate = note_json
      and parse = "parse_table [(note_json, note_parsed)]" and parsed = note_parsed
      and r = "JObj [(js ''note'', JStr (js ''n'')),
                  (js ''keywords'', JArr [JObj [(js ''word'', JStr (js ''a'')),
                     (js ''phonetic'', JStr []), (js ''roots'', JStr []), (js ''origin'', JStr []),
                     (js ''meaning'', JStr [])]]),
                  (js ''translation'', JStr [])]"
      and rp = "JObj [(js ''note'', JStr (js ''n'')),
                  (js ''keywords'', JArr [JObj [(js ''word'', JStr (js ''a'')),
                     (js ''roots'', JStr []), (js ''origin'', JStr []), (js ''meaning'', JStr [])]]),
                  (js ''translation'', JStr [])]"]
    note_candidate note_parse note_result note_result_p0
  by (simp add: other_props_def note_parsed_def)

text \<open>
  Claim C10 as stated fails in the second copy: an entry that came with a \<^verbatim>\<open>phonetic\<close> is
  rebuilt without it, so not with the five canonical fields.
\<close>

theorem phonetic_dropped_counterexample:
  "parseAIResponse_p0 (parse_table [(phonetic_json, phonetic_parsed)]) (JStr phonetic_json)
     = Inr (JObj [(js ''keywords'', JArr [JObj [(js ''word'', JStr (js ''a'')),
                     (js ''roots'', JStr []), (js ''origin'', JStr []), (js ''meaning'', JStr [])]]),
                  (js ''translation'', JStr [])])
   \<and> property_names (JObj [(js ''word'', JStr (js ''a'')),
                     (js ''roots'', JStr []), (js ''origin'', JStr []), (js ''meaning'', JStr [])])
      \<noteq> [js ''word'', js ''phonetic'', js ''roots'', js ''origin'', js ''meaning'']"
  by (simp add: run_defs text_defs value_defs)

lemma canonical_shape:
  "canonical_json \<noteq> []" "hd canonical_json = 0x7B" "last canonical_json = 0x7D"
  by (simp_all add: canonical_json_def js_def)

lemma canonical_length: "length (result_keywords canonical_result) \<le> 5"
  by (simp add: canonical_result_def)

lemma canonical_parse:
  "parse_table [(canonical_json, result_props canonical_result)] canonical_json
     = Inr (result_props canonical_result)"
  by (simp add: parse_table_def)

text \<open>
  The serialization of a result with one entry.
\<close>

theorem normalizer_idempotent_witness:
  "length (result_keywords canonical_result) \<le> 5
   \<and> canonical_json \<noteq> [] \<and> hd canonical_json = 0x7B \<and> last canonical_json = 0x7D
   \<and> parse_table [(canonical_json, result_props canonical_result)] canonical_json
        = Inr (result_props canonical_result)
   \<and> parseAIResponse (parse_table [(canonical_json, result_props canonical_result)])
        (JStr canonical_json) = Inr (JObj (result_props canonical_result))"
  using normalizer_idempotent [where r = canonical_result and s = canonical_json
      and parse = "parse_table [(canonical_json, result_props canonical_result)]"]
    canonical_length canonical_shape canonical_parse
  by simp

text \<open>
  The coercion is idempotent on values as well: what it returns for any parsed object, it
  returns again when given its own result.
\<close>

lemma spec_entry_idem: "spec_entry (spec_entry k) = spec_entry k"
  by (simp add: spec_entry_def spec_field_def own_def)

lemma map_exn_spec_entries:
  "map_exn keyword_entry (map spec_entry ys) = Inr (map spec_entry ys)"
  by (induction ys) (simp_all add: keyword_entry_eq spec_entry_idem, simp_all add: spec_entry_def)

lemma set_prop_same: "map_of ps n = Some v \<Longrightarrow> set_prop ps n v = ps"
  by (simp add: set_prop_def update_triv)

lemma map_of_set_prop: "map_of (set_prop ps n v) n = Some v"
  by (simp add: set_prop_def update_conv')

lemma own_Some: "own ps n = v \<Longrightarrow> v \<noteq> JUndefined \<Longrightarrow> map_of ps n = Some v"
  by (auto simp: own_def split: option.splits)

lemma coercion_idempotent:
  assumes "coerce_with keyword_entry parsed = Inr (JObj res)"
  shows "coerce_with keyword_entry res = Inr (JObj res)"
proof -
  let ?P = "default_keywords (default_translation parsed)"
  let ?ks = "map spec_entry (take 5 (elements (own parsed (js ''keywords''))))"
  have res: "res = set_prop ?P (js ''keywords'') (JArr ?ks)"
    using coerce_with_result [OF assms map_exn_keyword_entry] by simp
  have t: "own res (js ''translation'') = or_else (own parsed (js ''translation'')) (JStr [])"
    by (simp add: res own_set_prop own_default_keywords own_default_translation)
  have k: "map_of res (js ''keywords'') = Some (JArr ?ks)"
    by (simp add: res map_of_set_prop)
  then have ko: "own res (js ''keywords'') = JArr ?ks"
    by (simp add: own_def)
  have "default_translation res = res"
  proof (cases "truthy (own res (js ''translation''))")
    case True
    then show ?thesis by (simp add: default_translation_def)
  next
    case False
    then have "own res (js ''translation'') = JStr []"
      by (simp add: t or_else_def split: if_splits)
    then have "map_of res (js ''translation'') = Some (JStr [])"
      by (rule own_Some) simp
    then show ?thesis
      by (simp add: default_translation_def set_prop_same)
  qed
  moreover have "default_keywords res = res"
    by (simp add: default_keywords_def ko)
  moreover have "take 5 ?ks = ?ks"
    by simp
  ultimately show ?thesis
    using k by (simp add: coerce_with_def ko map_exn_spec_entries bind_exn_def set_prop_same)
qed

section \<open>Dispatch and adapters\<close>

lemma truthy_opt_prop_object: "truthy (opt_prop b n) \<Longrightarrow> b \<noteq> JUndefined \<and> b \<noteq> JNull"
  by (cases b) simp_all

lemma destructure_fields:
  assumes "b \<noteq> JUndefined" "b \<noteq> JNull"
  shows "destructure b = Inr (opt_prop b (js ''provider''), opt_prop b (js ''model''),
           opt_prop b (js ''apiKey''), opt_prop b (js ''prompt''))"
  using assms by (simp add: destructure_def)

text \<open>
  Claim C6. A POST request whose \<^verbatim>\<open>apiKey\<close> or \<^verbatim>\<open>prompt\<close> is empty or missing is
  answered with status 400 and the message \<^verbatim>\<open>API key is required\<close> or
  \<^verbatim>\<open>Prompt is required\<close>, whatever the provider is, and no outbound call is made. (The
  failures of an adapter and of the normalizer are answered with status 500.)
\<close>

theorem validation_before_dispatch:
  assumes "req_method req = js ''POST''"
    and "req_body req \<noteq> JUndefined" and "req_body req \<noteq> JNull"
    and "\<not> truthy (opt_prop (req_body req) (js ''apiKey''))
       \<or> \<not> truthy (opt_prop (req_body req) (js ''prompt''))"
  shows "handler parse fetch req =
           ([], json_with 400 (message_body
                  (if \<not> truthy (opt_prop (req_body req) (js ''apiKey''))
                   then js ''API key is required'' else js ''Prompt is required'')))
       \<and> res_status (snd (respond (calls, Inl e))) = 500"
  using assms
  by (auto simp: handler_def destructure_fields respond_def internal_error_def json_with_def)

text \<open>
  Claim C3, amended. A POST request with a key and a prompt whose provider is a string
  that is not registered is answered with status 400 and no outbound call is made. In
  \<^verbatim>\<open>src/api/analyze.js\<close> (\<^verbatim>\<open>gemini\<close>, \<^verbatim>\<open>deepseek\<close>, \<^verbatim>\<open>openrouter\<close>) the message is
  \<^verbatim>\<open>Unknown provider: \<close> followed by the identifier; in the second copy of the handler
  (\<^verbatim>\<open>src/unnamed/part_000\<close>: \<^verbatim>\<open>gemini\<close>, \<^verbatim>\<open>deepseek\<close>) it is \<^verbatim>\<open>Unknown provider\<close>.
\<close>

theorem unknown_provider:
  assumes "req_method req = js ''POST''"
    and "truthy (opt_prop (req_body req) (js ''apiKey''))"
    and "truthy (opt_prop (req_body req) (js ''prompt''))"
    and "opt_prop (req_body req) (js ''provider'') = JStr p"
  shows "(p \<noteq> js ''gemini'' \<and> p \<noteq> js ''deepseek'' \<and> p \<noteq> js ''openrouter'' \<longrightarrow>
            handler parse fetch req
              = ([], json_with 400 (message_body (js ''Unknown provider: '' @ p))))
       \<and> (p \<noteq> js ''gemini'' \<and> p \<noteq> js ''deepseek'' \<longrightarrow>
            handler_p0 parse fetch req = ([], json_with 400 (message_body (js ''Unknown provider''))))"
proof -
  have "req_body req \<noteq> JUndefined \<and> req_body req \<noteq> JNull"
    using assms(2) by (rule truthy_opt_prop_object)
  then have d: "destructure (req_body req) = Inr (JStr p, opt_prop (req_body req) (js ''model''),
           opt_prop (req_body req) (js ''apiKey''), opt_prop (req_body req) (js ''prompt''))"
    by (simp add: destructure_fields assms(4))
  show ?thesis
    using assms(1,2,3) by (simp add: handler_def handler_p0_def d)
qed

lemma sample_request_fields:
  "req_method (sample_request p k) = js ''POST''"
  "req_body (sample_request p k) \<noteq> JUndefined"
  "req_body (sample_request p k) \<noteq> JNull"
  "opt_prop (req_body (sample_request p k)) (js ''provider'') = JStr p"
  "opt_prop (req_body (sample_request p k)) (js ''apiKey'') = JStr k"
  "opt_prop (req_body (sample_request p k)) (js ''prompt'') = JStr (js ''hello'')"
  by (simp_all add: sample_request_def own_def)

text \<open>
  A request for Gemini with an empty key.
\<close>

theorem validation_before_dispatch_witness:
  "req_method (sample_request (js ''gemini'') []) = js ''POST''
   \<and> opt_prop (req_body (sample_request (js ''gemini'') [])) (js ''apiKey'') = JStr []
   \<and> handler (parse_table []) (fetch_always null_envelope_response) (sample_request (js ''gemini'') [])
      = ([], json_with 400 (message_body (js ''API key is required'')))
   \<and> res_status (snd (respond ([], Inl (Error (js ''No response from Gemini''))))) = 500"
  using validation_before_dispatch [where req = "sample_request (js ''gemini'') []"
      and parse = "parse_table []" and fetch = "fetch_always null_envelope_response"
      and calls = "[]" and e = "Error (js ''No response from Gemini'')"]
  by (simp add: sample_request_fields)

text \<open>
  The provider \<^verbatim>\<open>claude\<close>, in both copies.
\<close>

theorem unknown_provider_witness:
  "req_method (sample_request (js ''claude'') (js ''k'')) = js ''POST''
   \<and> opt_prop (req_body (sample_request (js ''claude'') (js ''k''))) (js ''provider'')
      = JStr (js ''claude'')
   \<and> handler (parse_table []) (fetch_always null_envelope_response)
        (sample_request (js ''claude'') (js ''k''))
      = ([], json_with 400 (message_body (js ''Unknown provider: claude'')))
   \<and> handler_p0 (parse_table []) (fetch_always null_envelope_response)
        (sample_request (js ''claude'') (js ''k''))
      = ([], json_with 400 (message_body (js ''Unknown provider'')))"
  using unknown_provider [where req = "sample_request (js ''claude'') (js ''k'')"
      and p = "js ''claude''" and parse = "parse_table []"
      and fetch = "fetch_always null_envelope_response"]
  by (simp add: sample_request_fields) (simp add: js_def)

text \<open>
  Claim C3 as stated fails in the second copy: its message does not carry the identifier.
\<close>

theorem unknown_provider_message_counterexample:
  "handler_p0 (parse_table []) (fetch_always null_envelope_response)
       (sample_request (js ''claude'') (js ''k''))
     = ([], json_with 400 (message_body (js ''Unknown provider'')))
   \<and> message_body (js ''Unknown provider'') \<noteq> message_body (js ''Unknown provider: claude'')"
  by (simp add: handler_p0_def destructure_def sample_request_def own_def message_body_def)

lemmas adapter_defs = callGemini_def callDeepSeek_def callOpenRouter_def callGemini_with_def
  callDeepSeek_with_def callOpenRouter_with_def gemini_response_def deepseek_response_def
  openrouter_response_def throw_Error_def fetch_always_def bind_exn_def or_else_def own_def

lemmas handler_defs = handler_def handler_p0_def destructure_def respond_def internal_error_def
  json_with_def message_body_def sample_request_def callGemini_p0_def callDeepSeek_p0_def

text \<open>
  Claim C4 fails on the code. On a response that is not successful and whose body is not
  JSON, \<^verbatim>\<open>callGemini\<close> and \<^verbatim>\<open>callDeepSeek\<close> fail with the SyntaxError of
  \<^verbatim>\<open>response.json()\<close>, not with their generic message; \<^verbatim>\<open>callOpenRouter\<close> catches it
  and fails with the message made from the status.
\<close>

theorem unparsable_error_body_escapes:
  "snd (callGemini (parse_table []) (fetch_always unparsable_error_response)
          (JStr (js ''k'')) (JStr (js ''m'')) (JStr (js ''hello'')))
     = Inl (SyntaxError (js ''Unexpected token < in JSON at position 0''))
   \<and> snd (callDeepSeek (parse_table []) (fetch_always unparsable_error_response)
          (JStr (js ''k'')) (JStr (js ''m'')) (JStr (js ''hello'')))
     = Inl (SyntaxError (js ''Unexpected token < in JSON at position 0''))
   \<and> snd (callOpenRouter (parse_table []) (fetch_always unparsable_error_response)
          (JStr (js ''k'')) (JStr (js ''m'')) (JStr (js ''hello'')))
     = Inl (Error (js ''OpenRouter error 502''))"
  by (simp add: adapter_defs unparsable_error_response_def Let_def js_def)

text \<open>
  Claim C8 fails on the code. On a successful response whose body is the JSON value
  \<^verbatim>\<open>null\<close> the first property read of each adapter (\<^verbatim>\<open>data.candidates\<close>,
  \<^verbatim>\<open>data.choices\<close>) throws a TypeError, not \<^verbatim>\<open>No response from ...\<close>.
\<close>

theorem null_envelope_escapes:
  "snd (callGemini (parse_table []) (fetch_always null_envelope_response)
          (JStr (js ''k'')) (JStr (js ''m'')) (JStr (js ''hello'')))
     = Inl (TypeError (js ''Cannot read properties of null (reading ''
              @ quoted (js ''candidates'') @ js '')''))
   \<and> snd (callDeepSeek (parse_table []) (fetch_always null_envelope_response)
          (JStr (js ''k'')) (JStr (js ''m'')) (JStr (js ''hello'')))
     = Inl (TypeError (js ''Cannot read properties of null (reading ''
              @ quoted (js ''choices'') @ js '')''))
   \<and> snd (callOpenRouter (parse_table []) (fetch_always null_envelope_response)
          (JStr (js ''k'')) (JStr (js ''m'')) (JStr (js ''hello'')))
     = Inl (TypeError (js ''Cannot read properties of null (reading ''
              @ quoted (js ''choices'') @ js '')''))"
  by (simp add: adapter_defs null_envelope_response_def Let_def)

text \<open>The part of the two claims that holds.\<close>

lemma error_message_carried:
  assumes "\<not> ok response"
    and "json response = Inr (JObj [(js ''error'', JObj [(js ''message'', JStr m)])])"
    and "m \<noteq> []"
  shows "gemini_response parseText response = Inl (Error m)"
    and "deepseek_response parseText response = Inl (Error m)"
    and "openrouter_response parseText response = Inl (Error m)"
  using assms
  by (simp_all add: gemini_response_def deepseek_response_def openrouter_response_def
      throw_Error_def bind_exn_def or_else_def own_def)

lemma error_message_fallback:
  assumes "\<not> ok response"
    and "json response = Inr (JObj ps)"
    and "\<not> truthy (opt_prop (own ps (js ''error'')) (js ''message''))"
  shows "gemini_response parseText response = Inl (Error (js ''Gemini API request failed''))"
    and "deepseek_response parseText response = Inl (Error (js ''DeepSeek API request failed''))"
    and "openrouter_response parseText response
           = Inl (Error (js ''OpenRouter error '' @ show_nat (status response)))"
  using assms
  by (simp_all add: gemini_response_def deepseek_response_def openrouter_response_def
      throw_Error_def bind_exn_def or_else_def)

lemma no_text_message:
  assumes "ok response"
    and "json response = Inr (JObj ps)"
  shows "\<not> truthy (opt_prop (opt_index0 (opt_prop (opt_prop (opt_index0 (own ps (js ''candidates'')))
                       (js ''content'')) (js ''parts''))) (js ''text'')) \<Longrightarrow>
         gemini_response parseText response = Inl (Error (js ''No response from Gemini''))"
    and "\<not> truthy (opt_prop (opt_prop (opt_index0 (own ps (js ''choices''))) (js ''message''))
                       (js ''content'')) \<Longrightarrow>
         deepseek_response parseText response = Inl (Error (js ''No response from DeepSeek''))"
    and "\<not> truthy (opt_prop (opt_prop (opt_index0 (own ps (js ''choices''))) (js ''message''))
                       (js ''content'')) \<Longrightarrow>
         openrouter_response parseText response = Inl (Error (js ''No response from OpenRouter''))"
  using assms
  by (simp_all add: gemini_response_def deepseek_response_def openrouter_response_def
      bind_exn_def)

lemma non_string_text_escapes:
  "snd (callGemini (parse_table []) (fetch_always number_text_response)
          (JStr (js ''k'')) (JStr (js ''m'')) (JStr (js ''hello'')))
     = Inl (TypeError (js ''text.trim is not a function''))"
  by (simp add: adapter_defs number_text_response_def parseAIResponse_def Let_def)

section \<open>The examples of the specification\<close>

lemma example_tolerance:
  "parseAIResponse (parse_table [(hi_json, hi_parsed)]) (JStr hi_fenced) = Inr (JObj hi_parsed)"
  by (simp add: hi_json_def hi_parsed_def hi_fenced_def text_defs value_defs)

lemma example_truncation:
  "coerce_with keyword_entry eight_parsed
     = Inr (JObj [(js ''translation'', JStr (js ''t'')),
                  (js ''keywords'', JArr (map (\<lambda>w. spec_entry (JObj [(js ''word'', JStr w)]))
                     [js ''a'', js ''b'', js ''c'', js ''d'', js ''e'']))])"
  by (simp add: eight_parsed_def value_defs spec_entry_def spec_field_def)

lemma example_no_json:
  "parseAIResponse parse (JStr (js ''no json here''))
     = Inl (Error (js ''Could not parse AI response as JSON''))"
  by (simp add: parseAIResponse_def text_defs)

lemma example_gemini_end_to_end:
  "snd (handler (parse_table [(hi_json, hi_parsed)]) (fetch_always gemini_envelope_response)
          (sample_request (js ''gemini'') (js ''k'')))
     = json_with 200 (JObj hi_parsed)"
  "length (fst (handler (parse_table [(hi_json, hi_parsed)]) (fetch_always gemini_envelope_response)
          (sample_request (js ''gemini'') (js ''k'')))) = 1"
  by (simp_all add: handler_defs adapter_defs gemini_envelope_response_def Let_def
      hi_json_def hi_parsed_def text_defs value_defs)

lemma example_bad_key:
  "snd (handler parse (fetch_always bad_key_response) (sample_request (js ''gemini'') (js ''k'')))
     = json_with 500 (message_body (js ''bad key''))"
  "snd (handler parse (fetch_always bad_key_response) (sample_request (js ''deepseek'') (js ''k'')))
     = json_with 500 (message_body (js ''bad key''))"
  "snd (handler parse (fetch_always bad_key_response) (sample_request (js ''openrouter'') (js ''k'')))
     = json_with 500 (message_body (js ''bad key''))"
  by (simp_all add: handler_defs adapter_defs bad_key_response_def Let_def)

end
